theory Spec2Isabelle
  imports Main
begin

section \<open>Python values and errors\<close>

text \<open>
  The quirks in \<^verbatim>\<open>zhaquirks/tuya/ts0601_trv.py\<close> translate Tuya datapoints (DPs) of
  thermostatic radiator valves into attributes of standard ZCL clusters and back.
  Exceptions of the Python code are values of \<open>py_error\<close>; a function that can raise
  returns \<open>py_error + 'a\<close>.
\<close>

datatype py_error = TypeError | KeyError | IndexError | AttributeError

text \<open>
  Values that the code stores in caches of local clusters or puts into an outgoing
  payload: an integer (enumerations included), a boolean, or the float that the true
  division \<^verbatim>\<open>a / b\<close> of two integers gives, or the product of such a float with an
  integer. A float is kept symbolic (\<open>PQuot a b\<close> is \<^verbatim>\<open>a / b\<close>, \<open>PQuotTimes a b k\<close> is
  \<^verbatim>\<open>(a / b) * k\<close>): the code only stores and forwards it. Every finite float is the
  quotient of two integers, so \<open>PQuot\<close> also stands for a float that a caller passes in.
\<close>

datatype pyval = PInt int | PBool bool | PQuot int int | PQuotTimes int int int

text \<open>
  The attribute cache of a cluster, \<^verbatim>\<open>self._attr_cache\<close>, is a dictionary from attribute
  id to value; \<^verbatim>\<open>_attr_cache.get(k)\<close> is \<open>cache k\<close>, with \<open>None\<close> for a missing key.
  All attributes of the Thermostat cluster that the code reads are integer typed.
\<close>

type_synonym attr_cache = "int \<rightharpoonup> int"

section \<open>Constants of the ZCL Thermostat cluster\<close>

text \<open>
  Attribute ids and enumeration values of zigpy's \<^verbatim>\<open>Thermostat\<close> cluster
  (\<^verbatim>\<open>attributes_by_name[...].id\<close>, \<^verbatim>\<open>SystemMode\<close>, \<^verbatim>\<open>RunningMode\<close>,
  \<^verbatim>\<open>RunningState\<close>), as the ZCL specification numbers them; the tests of the
  repository use the same numbers (\<^verbatim>\<open>0x1C\<close>, \<^verbatim>\<open>0x1E\<close>, \<^verbatim>\<open>0x29\<close>, \<^verbatim>\<open>0x12\<close>).
\<close>

named_theorems zcl_defs

definition local_temperature_id :: int where
  [zcl_defs]: "local_temperature_id = 0x0000"

definition occupied_heating_setpoint_id :: int where
  [zcl_defs]: "occupied_heating_setpoint_id = 0x0012"

definition system_mode_id :: int where
  [zcl_defs]: "system_mode_id = 0x001C"

definition running_mode_id :: int where
  [zcl_defs]: "running_mode_id = 0x001E"

definition running_state_id :: int where
  [zcl_defs]: "running_state_id = 0x0029"

definition SystemMode_Off :: int where
  [zcl_defs]: "SystemMode_Off = 0x00"

definition SystemMode_Heat :: int where
  [zcl_defs]: "SystemMode_Heat = 0x04"

definition RunningMode_Off :: int where
  [zcl_defs]: "RunningMode_Off = 0x00"

definition RunningMode_Heat :: int where
  [zcl_defs]: "RunningMode_Heat = 0x04"

definition RunningState_Idle :: int where
  [zcl_defs]: "RunningState_Idle = 0x0000"

definition RunningState_Heat_State_On :: int where
  [zcl_defs]: "RunningState_Heat_State_On = 0x0001"

section \<open>Datapoint identifiers\<close>

named_theorems dp_defs

definition SASWELL_ROOM_TEMP_ATTR :: int where
  [dp_defs]: "SASWELL_ROOM_TEMP_ATTR = 0x0266"

definition SASWELL_TARGET_TEMP_ATTR :: int where
  [dp_defs]: "SASWELL_TARGET_TEMP_ATTR = 0x0267"

definition ZONNSMART_TARGET_TEMP_ATTR :: int where
  [dp_defs]: "ZONNSMART_TARGET_TEMP_ATTR = 0x0210"

definition ZONNSMART_TEMPERATURE_ATTR :: int where
  [dp_defs]: "ZONNSMART_TEMPERATURE_ATTR = 0x0218"

section \<open>Derived running state\<close>

text \<open>
  A calculator publishes \<^verbatim>\<open>listener_event("state_change", state)\<close> on the thermostat
  bus; \<open>StateChange state\<close> is that event. The result of a calculator is the list of
  events it published, or the exception it raised before publishing.
\<close>

datatype bus_event = StateChange int

text \<open>
  \<^verbatim>\<open>SaswellThermostat.hass_climate_state_change(attrid, value)\<close>. Outside heat mode the
  state is 0 without a look at the temperatures. In heat mode the fresh value is scaled
  by 10 and the other one is read from the cache; \<^verbatim>\<open>temp_set + 2\<close> and
  \<^verbatim>\<open>int(temp_current)\<close> raise \<^verbatim>\<open>TypeError\<close> on \<^verbatim>\<open>None\<close>. Every attribute id but
  the room temperature takes the \<^verbatim>\<open>else\<close> branch.
\<close>

definition hass_climate_state_change :: "attr_cache \<Rightarrow> int \<Rightarrow> int \<Rightarrow> py_error + bus_event list" where
  "hass_climate_state_change cache attrid value =
     (if cache system_mode_id \<noteq> Some SystemMode_Heat then Inr [StateChange 0]
      else if attrid = SASWELL_ROOM_TEMP_ATTR then
        (let temp_current = value * 10 in
         case cache occupied_heating_setpoint_id of
           None \<Rightarrow> Inl TypeError
         | Some temp_set \<Rightarrow>
             Inr [StateChange (if temp_current \<ge> temp_set + 2 then 0 else 1)])
      else
        (let temp_set = value * 10 in
         case cache local_temperature_id of
           None \<Rightarrow> Inl TypeError
         | Some temp_current \<Rightarrow>
             Inr [StateChange (if temp_current \<ge> temp_set + 2 then 0 else 1)]))"

text \<open>
  \<^verbatim>\<open>ZONNSMARTThermostat.state_temp_change(attrid, value)\<close>: no look at the system mode;
  an attribute id that is neither temperature returns without an event.
\<close>

definition state_temp_change :: "attr_cache \<Rightarrow> int \<Rightarrow> int \<Rightarrow> py_error + bus_event list" where
  "state_temp_change cache attrid value =
     (if attrid = ZONNSMART_TEMPERATURE_ATTR then
        (let temp_current = value * 10 in
         case cache occupied_heating_setpoint_id of
           None \<Rightarrow> Inl TypeError
         | Some temp_set \<Rightarrow> Inr [StateChange (if temp_current \<ge> temp_set then 0 else 1)])
      else if attrid = ZONNSMART_TARGET_TEMP_ATTR then
        (let temp_set = value * 10 in
         case cache local_temperature_id of
           None \<Rightarrow> Inl TypeError
         | Some temp_current \<Rightarrow> Inr [StateChange (if temp_current \<ge> temp_set then 0 else 1)])
      else Inr [])"

text \<open>
  Modelled from the spec: \<^verbatim>\<open>TuyaThermostatCluster.state_change(value)\<close>, the listener of
  the \<^verbatim>\<open>state_change\<close> event, is defined in \<^verbatim>\<open>zhaquirks/tuya/__init__.py\<close>, which is
  not among the sources. The spec gives the derived states \<open>{Idle, Heating}\<close> with an
  output of "state, plus mode"; the tests of the repository fix the two updates:
  state 0 gives running mode Off and running state Idle, any other state gives running
  mode Heat and running state Heat_State_On, in this order.
\<close>

definition state_change :: "int \<Rightarrow> (int \<times> int) list" where
  "state_change value =
     (if value = 0
      then [(running_mode_id, RunningMode_Off), (running_state_id, RunningState_Idle)]
      else [(running_mode_id, RunningMode_Heat), (running_state_id, RunningState_Heat_State_On)])"

text \<open>
  \<^verbatim>\<open>SaswellThermostat.on_off_event(value)\<close>: the three updates of the thermostat cluster
  for a report of the on/off datapoint.
\<close>

definition on_off_event :: "int \<Rightarrow> (int \<times> int) list" where
  "on_off_event value =
     (if value = 1
      then [(system_mode_id, SystemMode_Heat), (running_mode_id, RunningMode_Heat),
            (running_state_id, RunningState_Heat_State_On)]
      else [(system_mode_id, SystemMode_Off), (running_mode_id, RunningMode_Off),
            (running_state_id, RunningState_Idle)])"

text \<open>
  The attribute updates that the published events cause on the thermostat cluster (none
  when the calculator raised), and the running states among a list of updates.
\<close>

fun deliver :: "py_error + bus_event list \<Rightarrow> (int \<times> int) list" where
  "deliver (Inl e) = []"
| "deliver (Inr evs) = concat (map (\<lambda>ev. case ev of StateChange v \<Rightarrow> state_change v) evs)"

definition running_states :: "(int \<times> int) list \<Rightarrow> int list" where
  "running_states us = map snd (filter (\<lambda>u. fst u = running_state_id) us)"

section \<open>Reverse mapping of the thermostat clusters\<close>

text \<open>
  \<^verbatim>\<open>round(value / d)\<close> for an integer \<open>value\<close> and \<open>d\<close> one of 10 and 100: Python divides
  in floating point and rounds halves to the even neighbour. For \<open>\<bar>value\<bar> < 2 ^ 53\<close> the
  float quotient lies on the same side of every half-integer as the exact quotient,
  so the result is the exact quotient rounded half to even, which is what is computed
  here on integers.
\<close>

definition py_round_div :: "int \<Rightarrow> int \<Rightarrow> int" where
  "py_round_div x d =
     (let q = x div d; r = x mod d in
      if 2 * r < d then q
      else if 2 * r > d then q + 1
      else if even q then q else q + 1)"

text \<open>\<^verbatim>\<open>self._attr_cache.get(key, default)\<close>.\<close>

definition cache_get :: "(int \<rightharpoonup> 'a) \<Rightarrow> int \<Rightarrow> 'a \<Rightarrow> 'a" where
  "cache_get cache key dflt = (case cache key of None \<Rightarrow> dflt | Some v \<Rightarrow> v)"

text \<open>
  The value of a datapoint in an outgoing write: one value, or the list of a raw
  datapoint (\<^verbatim>\<open>data24\<close>, \<^verbatim>\<open>data144\<close>). \<^verbatim>\<open>map_attribute\<close> returns a dictionary
  with one entry, an empty dictionary, or \<^verbatim>\<open>None\<close> when it falls off its end: the
  dictionary is an association list, \<^verbatim>\<open>None\<close> is \<open>None\<close>.
\<close>

datatype payload = Scalar pyval | Data "pyval list"

type_synonym dp_writes = "(int \<times> payload) list"

definition programing_oper_mode_id :: int where
  [zcl_defs]: "programing_oper_mode_id = 0x0025"

definition occupancy_id :: int where
  [zcl_defs]: "occupancy_id = 0x0002"

definition ProgrammingOperationMode_Simple :: int where
  [zcl_defs]: "ProgrammingOperationMode_Simple = 0x00"

definition ProgrammingOperationMode_Schedule_programming_mode :: int where
  [zcl_defs]: "ProgrammingOperationMode_Schedule_programming_mode = 0x01"

definition ProgrammingOperationMode_Economy_mode :: int where
  [zcl_defs]: "ProgrammingOperationMode_Economy_mode = 0x04"

definition Occupancy_Unoccupied :: int where
  [zcl_defs]: "Occupancy_Unoccupied = 0x00"

definition Occupancy_Occupied :: int where
  [zcl_defs]: "Occupancy_Occupied = 0x01"

definition SITERWELL_TARGET_TEMP_ATTR :: int where
  [dp_defs]: "SITERWELL_TARGET_TEMP_ATTR = 0x0202"

definition SITERWELL_MODE_ATTR :: int where
  [dp_defs]: "SITERWELL_MODE_ATTR = 0x0404"

definition MOES_TARGET_TEMP_ATTR :: int where
  [dp_defs]: "MOES_TARGET_TEMP_ATTR = 0x0202"

definition MOES_MODE_ATTR :: int where
  [dp_defs]: "MOES_MODE_ATTR = 0x0404"

definition MOES_TEMP_CALIBRATION_ATTR :: int where
  [dp_defs]: "MOES_TEMP_CALIBRATION_ATTR = 0x022C"

definition MOES_MIN_TEMPERATURE_ATTR :: int where
  [dp_defs]: "MOES_MIN_TEMPERATURE_ATTR = 0x0266"

definition MOES_MAX_TEMPERATURE_ATTR :: int where
  [dp_defs]: "MOES_MAX_TEMPERATURE_ATTR = 0x0267"

definition MOES_WINDOW_DETECT_ATTR :: int where
  [dp_defs]: "MOES_WINDOW_DETECT_ATTR = 0x0068"

definition MOES_BOOST_TIME_ATTR :: int where
  [dp_defs]: "MOES_BOOST_TIME_ATTR = 0x0269"

definition MOES_FORCE_VALVE_ATTR :: int where
  [dp_defs]: "MOES_FORCE_VALVE_ATTR = 0x046A"

definition MOES_COMFORT_TEMP_ATTR :: int where
  [dp_defs]: "MOES_COMFORT_TEMP_ATTR = 0x026B"

definition MOES_ECO_TEMP_ATTR :: int where
  [dp_defs]: "MOES_ECO_TEMP_ATTR = 0x026C"

definition MOES_WEEK_FORMAT_ATTR :: int where
  [dp_defs]: "MOES_WEEK_FORMAT_ATTR = 0x046F"

definition MOES_AWAY_TEMP_ATTR :: int where
  [dp_defs]: "MOES_AWAY_TEMP_ATTR = 0x0272"

definition MOES_AWAY_DAYS_ATTR :: int where
  [dp_defs]: "MOES_AWAY_DAYS_ATTR = 0x0275"

definition MOES_SCHEDULE_WORKDAY_ATTR :: int where
  [dp_defs]: "MOES_SCHEDULE_WORKDAY_ATTR = 0x0070"

definition MOES_SCHEDULE_WEEKEND_ATTR :: int where
  [dp_defs]: "MOES_SCHEDULE_WEEKEND_ATTR = 0x0071"

text \<open>
  \<^verbatim>\<open>SiterwellThermostat.map_attribute(attribute, value)\<close>. \<^verbatim>\<open>self.error(...)\<close> only
  logs; after it the function falls off its end and returns \<^verbatim>\<open>None\<close>.
\<close>

definition SiterwellThermostat_map_attribute :: "attr_cache \<Rightarrow> string \<Rightarrow> int \<Rightarrow> dp_writes option" where
  "SiterwellThermostat_map_attribute cache attribute value =
     (if attribute = ''occupied_heating_setpoint''
      then Some [(SITERWELL_TARGET_TEMP_ATTR, Scalar (PInt (py_round_div value 10)))]
      else if attribute \<in> {''system_mode'', ''programing_oper_mode''} then
        (let system_mode =
               (if attribute = ''system_mode'' then value
                else cache_get cache system_mode_id SystemMode_Heat);
             oper_mode =
               (if attribute = ''system_mode''
                then cache_get cache programing_oper_mode_id ProgrammingOperationMode_Simple
                else value)
         in if system_mode = SystemMode_Off then Some [(SITERWELL_MODE_ATTR, Scalar (PInt 0))]
            else if system_mode = SystemMode_Heat then
              (if oper_mode = ProgrammingOperationMode_Schedule_programming_mode
               then Some [(SITERWELL_MODE_ATTR, Scalar (PInt 1))]
               else if oper_mode = ProgrammingOperationMode_Simple
               then Some [(SITERWELL_MODE_ATTR, Scalar (PInt 2))]
               else None)
            else None)
      else None)"

text \<open>
  The attributes of zigpy's Thermostat cluster that the module names, as (id, name)
  with the ids of the ZCL specification, and the attributes that \<^verbatim>\<open>MoesThermostat\<close>
  adds to them. \<^verbatim>\<open>attributes_by_name[name].id\<close> inverts the table; a name that is not
  in the dictionary raises \<^verbatim>\<open>KeyError\<close>.
\<close>

definition Thermostat_attributes :: "(int \<times> string) list" where
  "Thermostat_attributes =
    [(0x0000, ''local_temperature''), (0x0002, ''occupancy''),
     (0x0010, ''local_temperature_calibration''), (0x0012, ''occupied_heating_setpoint''),
     (0x0014, ''unoccupied_heating_setpoint''), (0x0015, ''min_heat_setpoint_limit''),
     (0x0016, ''max_heat_setpoint_limit''), (0x001C, ''system_mode''),
     (0x001D, ''alarm_mask''), (0x001E, ''running_mode''),
     (0x0025, ''programing_oper_mode''), (0x0029, ''running_state'')]"

definition attributes_by_name :: "(int \<times> string) list \<Rightarrow> string \<rightharpoonup> int" where
  "attributes_by_name attrs name = map_of (map (\<lambda>(i, n). (n, i)) attrs) name"

definition MoesThermostat_attributes :: "(int \<times> string) list" where
  "MoesThermostat_attributes = Thermostat_attributes @
    [(0x4000, ''comfort_heating_setpoint''), (0x4001, ''eco_heating_setpoint''),
     (0x4002, ''operation_preset''), (0x4003, ''work_days''),
     (0x4004, ''valve_open_percentage''), (0x4005, ''boost_duration_seconds''),
     (0x4006, ''valve_force_state''), (0x4007, ''unoccupied_duration_days''),
     (0x4110, ''workday_schedule_1_hour''), (0x4111, ''workday_schedule_1_minute''),
     (0x4112, ''workday_schedule_1_temperature''), (0x4120, ''workday_schedule_2_hour''),
     (0x4121, ''workday_schedule_2_minute''), (0x4122, ''workday_schedule_2_temperature''),
     (0x4130, ''workday_schedule_3_hour''), (0x4131, ''workday_schedule_3_minute''),
     (0x4132, ''workday_schedule_3_temperature''), (0x4140, ''workday_schedule_4_hour''),
     (0x4141, ''workday_schedule_4_minute''), (0x4142, ''workday_schedule_4_temperature''),
     (0x4150, ''workday_schedule_5_hour''), (0x4151, ''workday_schedule_5_minute''),
     (0x4152, ''workday_schedule_5_temperature''), (0x4160, ''workday_schedule_6_hour''),
     (0x4161, ''workday_schedule_6_minute''), (0x4162, ''workday_schedule_6_temperature''),
     (0x4210, ''weekend_schedule_1_hour''), (0x4211, ''weekend_schedule_1_minute''),
     (0x4212, ''weekend_schedule_1_temperature''), (0x4220, ''weekend_schedule_2_hour''),
     (0x4221, ''weekend_schedule_2_minute''), (0x4222, ''weekend_schedule_2_temperature''),
     (0x4230, ''weekend_schedule_3_hour''), (0x4231, ''weekend_schedule_3_minute''),
     (0x4232, ''weekend_schedule_3_temperature''), (0x4240, ''weekend_schedule_4_hour''),
     (0x4241, ''weekend_schedule_4_minute''), (0x4242, ''weekend_schedule_4_temperature''),
     (0x4250, ''weekend_schedule_5_hour''), (0x4251, ''weekend_schedule_5_minute''),
     (0x4252, ''weekend_schedule_5_temperature''), (0x4260, ''weekend_schedule_6_hour''),
     (0x4261, ''weekend_schedule_6_minute''), (0x4262, ''weekend_schedule_6_temperature'')]"

definition MoesThermostat_attributes_by_name :: "string \<rightharpoonup> int" where
  "MoesThermostat_attributes_by_name = attributes_by_name MoesThermostat_attributes"

text \<open>
  \<^verbatim>\<open>MoesThermostat.DIRECT_MAPPING_ATTRS\<close>: name, datapoint, and the divisor \<open>d\<close> of the
  transform \<^verbatim>\<open>lambda value: round(value / d)\<close>, or \<open>None\<close> where the table has no
  transform.
\<close>

definition MoesThermostat_DIRECT_MAPPING_ATTRS :: "(string \<times> int \<times> int option) list" where
  "MoesThermostat_DIRECT_MAPPING_ATTRS =
    [(''occupied_heating_setpoint'', MOES_TARGET_TEMP_ATTR, Some 10),
     (''unoccupied_heating_setpoint'', MOES_AWAY_TEMP_ATTR, Some 100),
     (''comfort_heating_setpoint'', MOES_COMFORT_TEMP_ATTR, Some 100),
     (''eco_heating_setpoint'', MOES_ECO_TEMP_ATTR, Some 100),
     (''min_heat_setpoint_limit'', MOES_MIN_TEMPERATURE_ATTR, Some 100),
     (''max_heat_setpoint_limit'', MOES_MAX_TEMPERATURE_ATTR, Some 100),
     (''local_temperature_calibration'', MOES_TEMP_CALIBRATION_ATTR, Some 10),
     (''work_days'', MOES_WEEK_FORMAT_ATTR, None),
     (''operation_preset'', MOES_MODE_ATTR, None),
     (''boost_duration_seconds'', MOES_BOOST_TIME_ATTR, None),
     (''valve_force_state'', MOES_FORCE_VALVE_ATTR, None),
     (''unoccupied_duration_days'', MOES_AWAY_DAYS_ATTR, None)]"

text \<open>
  \<^verbatim>\<open>WORKDAY_SCHEDULE_ATTRS\<close> and \<^verbatim>\<open>WEEKEND_SCHEDULE_ATTRS\<close>, name and default, in the
  order of the dictionaries: slot 6 first, and in each slot temperature, minute, hour.
\<close>

definition WORKDAY_SCHEDULE_ATTRS :: "(string \<times> int) list" where
  "WORKDAY_SCHEDULE_ATTRS =
    [
     (''workday_schedule_6_temperature'', 1500), (''workday_schedule_6_minute'', 0),
     (''workday_schedule_6_hour'', 22), (''workday_schedule_5_temperature'', 2000),
     (''workday_schedule_5_minute'', 30), (''workday_schedule_5_hour'', 17),
     (''workday_schedule_4_temperature'', 1500), (''workday_schedule_4_minute'', 30),
     (''workday_schedule_4_hour'', 12), (''workday_schedule_3_temperature'', 1500),
     (''workday_schedule_3_minute'', 30), (''workday_schedule_3_hour'', 11),
     (''workday_schedule_2_temperature'', 1500), (''workday_schedule_2_minute'', 0),
     (''workday_schedule_2_hour'', 8), (''workday_schedule_1_temperature'', 2000),
     (''workday_schedule_1_minute'', 0), (''workday_schedule_1_hour'', 6)]"

definition WEEKEND_SCHEDULE_ATTRS :: "(string \<times> int) list" where
  "WEEKEND_SCHEDULE_ATTRS =
    [
     (''weekend_schedule_6_temperature'', 1500), (''weekend_schedule_6_minute'', 0),
     (''weekend_schedule_6_hour'', 22), (''weekend_schedule_5_temperature'', 2000),
     (''weekend_schedule_5_minute'', 30), (''weekend_schedule_5_hour'', 17),
     (''weekend_schedule_4_temperature'', 1500), (''weekend_schedule_4_minute'', 30),
     (''weekend_schedule_4_hour'', 12), (''weekend_schedule_3_temperature'', 1500),
     (''weekend_schedule_3_minute'', 30), (''weekend_schedule_3_hour'', 11),
     (''weekend_schedule_2_temperature'', 1500), (''weekend_schedule_2_minute'', 0),
     (''weekend_schedule_2_hour'', 8), (''weekend_schedule_1_temperature'', 2000),
     (''weekend_schedule_1_minute'', 0), (''weekend_schedule_1_hour'', 6)]"

text \<open>
  One turn of the loop over \<^verbatim>\<open>enumerate(SCHEDULE_ATTRS.items())\<close>: the value appended
  to \<^verbatim>\<open>data\<close> for the entry \<open>(attr, dflt)\<close> at position \<open>num\<close>.
\<close>

definition schedule_val :: "attr_cache \<Rightarrow> string \<Rightarrow> int \<Rightarrow> nat \<times> string \<times> int \<Rightarrow> py_error + int" where
  "schedule_val cache attribute value entry =
     (case entry of (num, attr, dflt) \<Rightarrow>
        if num mod 3 = 0 then
          (if attr = attribute then Inr (py_round_div value 100)
           else case MoesThermostat_attributes_by_name attr of
                  None \<Rightarrow> Inl KeyError
                | Some i \<Rightarrow> Inr (py_round_div (cache_get cache i dflt) 100))
        else if attr = attribute then Inr value
        else case MoesThermostat_attributes_by_name attr of
               None \<Rightarrow> Inl KeyError
             | Some i \<Rightarrow> Inr (cache_get cache i dflt))"

fun schedule_loop :: "attr_cache \<Rightarrow> string \<Rightarrow> int \<Rightarrow> (nat \<times> string \<times> int) list \<Rightarrow> int list
    \<Rightarrow> py_error + int list" where
  "schedule_loop cache attribute value [] data = Inr data"
| "schedule_loop cache attribute value (entry # rest) data =
     (case schedule_val cache attribute value entry of
        Inl e \<Rightarrow> Inl e
      | Inr val \<Rightarrow> schedule_loop cache attribute value rest (data @ [val]))"

text \<open>
  \<^verbatim>\<open>MoesThermostat.map_attribute(attribute, value)\<close>. The branch of
  \<^verbatim>\<open>programing_oper_mode\<close> and \<^verbatim>\<open>occupancy\<close> falls through after \<^verbatim>\<open>self.error\<close>;
  none of the later tests matches these two names, so the result is \<^verbatim>\<open>None\<close>.
\<close>

definition MoesThermostat_map_attribute :: "attr_cache \<Rightarrow> string \<Rightarrow> int \<Rightarrow> py_error + dp_writes option" where
  "MoesThermostat_map_attribute cache attribute value =
     (case map_of MoesThermostat_DIRECT_MAPPING_ATTRS attribute of
        Some (dp, transform) \<Rightarrow>
          Inr (Some [(dp, Scalar (PInt (case transform of
                                          None \<Rightarrow> value
                                        | Some d \<Rightarrow> py_round_div value d)))])
      | None \<Rightarrow>
        if attribute \<in> {''programing_oper_mode'', ''occupancy''} then
          (let occupancy =
                 (if attribute = ''occupancy'' then value
                  else cache_get cache occupancy_id Occupancy_Occupied);
               oper_mode =
                 (if attribute = ''occupancy''
                  then cache_get cache programing_oper_mode_id ProgrammingOperationMode_Simple
                  else value)
           in if occupancy = Occupancy_Unoccupied then Inr (Some [(MOES_MODE_ATTR, Scalar (PInt 0))])
              else if occupancy = Occupancy_Occupied then
                (if oper_mode = ProgrammingOperationMode_Schedule_programming_mode
                 then Inr (Some [(MOES_MODE_ATTR, Scalar (PInt 1))])
                 else if oper_mode = ProgrammingOperationMode_Simple
                 then Inr (Some [(MOES_MODE_ATTR, Scalar (PInt 2))])
                 else if oper_mode = ProgrammingOperationMode_Economy_mode
                 then Inr (Some [(MOES_MODE_ATTR, Scalar (PInt 4))])
                 else Inr None)
              else Inr None)
        else if attribute = ''system_mode'' then
          (case MoesThermostat_attributes_by_name ''operation_preset'' of
             None \<Rightarrow> Inl KeyError
           | Some i \<Rightarrow> Inr (Some [(MOES_MODE_ATTR, Scalar (PInt (cache_get cache i 2)))]))
        else if attribute \<in> set (map fst WORKDAY_SCHEDULE_ATTRS) then
          (case schedule_loop cache attribute value (enumerate 0 WORKDAY_SCHEDULE_ATTRS) [] of
             Inl e \<Rightarrow> Inl e
           | Inr data \<Rightarrow> Inr (Some [(MOES_SCHEDULE_WORKDAY_ATTR, Data (map PInt data))]))
        else if attribute \<in> set (map fst WEEKEND_SCHEDULE_ATTRS) then
          (case schedule_loop cache attribute value (enumerate 0 WEEKEND_SCHEDULE_ATTRS) [] of
             Inl e \<Rightarrow> Inl e
           | Inr data \<Rightarrow> Inr (Some [(MOES_SCHEDULE_WEEKEND_ATTR, Data (map PInt data))]))
        else Inr None)"

text \<open>
  The schedule payload in the words of the claim. Position \<open>j\<close> of the 18 fields
  belongs to slot \<open>6 - j div 3\<close>; within a slot the order is temperature, minute,
  hour, with attribute ids \<open>base + 16 * slot + 2\<close>, \<open>+ 1\<close>, \<open>+ 0\<close> (\<open>base\<close> is
  \<^verbatim>\<open>0x4100\<close> for workdays and \<^verbatim>\<open>0x4200\<close> for the weekend). Field \<open>j\<close> of a write to
  field \<open>i\<close> carries the written value when \<open>j = i\<close> and else the cached value of its
  attribute, or the default of the table; a temperature field carries that value
  divided by 100 and rounded.
\<close>

definition schedule_attr_id :: "int \<Rightarrow> nat \<Rightarrow> int" where
  "schedule_attr_id base j = base + (6 - int (j div 3)) * 16 + (2 - int (j mod 3))"

definition schedule_entry :: "(string \<times> int) list \<Rightarrow> int \<Rightarrow> attr_cache \<Rightarrow> nat \<Rightarrow> int \<Rightarrow> nat \<Rightarrow> int" where
  "schedule_entry tbl base cache i value j =
     (let v = (if j = i then value else cache_get cache (schedule_attr_id base j) (snd (tbl ! j)))
      in if j mod 3 = 0 then py_round_div v 100 else v)"

definition operation_preset_id :: int where
  "operation_preset_id = 0x4002"

section \<open>Write paths of the local clusters\<close>

text \<open>
  The remaining datapoint identifiers of the module, and its two constants
  \<^verbatim>\<open>ZONNSMART_MAX_TEMPERATURE_VAL\<close> and \<^verbatim>\<open>ZONNSMART_MIN_TEMPERATURE_VAL\<close>.
\<close>

definition SITERWELL_CHILD_LOCK_ATTR :: int where
  [dp_defs]: "SITERWELL_CHILD_LOCK_ATTR = 0x0107"

definition SITERWELL_WINDOW_DETECT_ATTR :: int where
  [dp_defs]: "SITERWELL_WINDOW_DETECT_ATTR = 0x0112"

definition SITERWELL_VALVE_DETECT_ATTR :: int where
  [dp_defs]: "SITERWELL_VALVE_DETECT_ATTR = 0x0114"

definition SITERWELL_VALVE_STATE_ATTR :: int where
  [dp_defs]: "SITERWELL_VALVE_STATE_ATTR = 0x026D"

definition SITERWELL_TEMPERATURE_ATTR :: int where
  [dp_defs]: "SITERWELL_TEMPERATURE_ATTR = 0x0203"

definition SITERWELL_BATTERY_ATTR :: int where
  [dp_defs]: "SITERWELL_BATTERY_ATTR = 0x0215"

definition MOES_TEMPERATURE_ATTR :: int where
  [dp_defs]: "MOES_TEMPERATURE_ATTR = 0x0203"

definition MOES_CHILD_LOCK_ATTR :: int where
  [dp_defs]: "MOES_CHILD_LOCK_ATTR = 0x0107"

definition MOES_VALVE_DETECT_ATTR :: int where
  [dp_defs]: "MOES_VALVE_DETECT_ATTR = 0x0114"

definition MOES_VALVE_STATE_ATTR :: int where
  [dp_defs]: "MOES_VALVE_STATE_ATTR = 0x026D"

definition MOES_BATTERY_LOW_ATTR :: int where
  [dp_defs]: "MOES_BATTERY_LOW_ATTR = 0x016E"

definition MOES_AUTO_LOCK_ATTR :: int where
  [dp_defs]: "MOES_AUTO_LOCK_ATTR = 0x0174"

definition ZONNSMART_MODE_ATTR :: int where
  [dp_defs]: "ZONNSMART_MODE_ATTR = 0x0402"

definition ZONNSMART_WINDOW_DETECT_ATTR :: int where
  [dp_defs]: "ZONNSMART_WINDOW_DETECT_ATTR = 0x0108"

definition ZONNSMART_FROST_PROTECT_ATTR :: int where
  [dp_defs]: "ZONNSMART_FROST_PROTECT_ATTR = 0x010A"

definition ZONNSMART_TEMPERATURE_CALIBRATION_ATTR :: int where
  [dp_defs]: "ZONNSMART_TEMPERATURE_CALIBRATION_ATTR = 0x021B"

definition ZONNSMART_WEEK_FORMAT_ATTR :: int where
  [dp_defs]: "ZONNSMART_WEEK_FORMAT_ATTR = 0x041F"

definition ZONNSMART_HOLIDAY_TEMP_ATTR :: int where
  [dp_defs]: "ZONNSMART_HOLIDAY_TEMP_ATTR = 0x0220"

definition ZONNSMART_BATTERY_ATTR :: int where
  [dp_defs]: "ZONNSMART_BATTERY_ATTR = 0x0223"

definition ZONNSMART_UPTIME_TIME_ATTR :: int where
  [dp_defs]: "ZONNSMART_UPTIME_TIME_ATTR = 0x0024"

definition ZONNSMART_CHILD_LOCK_ATTR :: int where
  [dp_defs]: "ZONNSMART_CHILD_LOCK_ATTR = 0x0128"

definition ZONNSMART_FAULT_DETECTION_ATTR :: int where
  [dp_defs]: "ZONNSMART_FAULT_DETECTION_ATTR = 0x052D"

definition ZONNSMART_HOLIDAY_DATETIME_ATTR :: int where
  [dp_defs]: "ZONNSMART_HOLIDAY_DATETIME_ATTR = 0x032E"

definition ZONNSMART_BOOST_TIME_ATTR :: int where
  [dp_defs]: "ZONNSMART_BOOST_TIME_ATTR = 0x0265"

definition ZONNSMART_OPENED_WINDOW_TEMP :: int where
  [dp_defs]: "ZONNSMART_OPENED_WINDOW_TEMP = 0x0266"

definition ZONNSMART_COMFORT_TEMP_ATTR :: int where
  [dp_defs]: "ZONNSMART_COMFORT_TEMP_ATTR = 0x0268"

definition ZONNSMART_ECO_TEMP_ATTR :: int where
  [dp_defs]: "ZONNSMART_ECO_TEMP_ATTR = 0x0269"

definition ZONNSMART_HEATING_STOPPING_ATTR :: int where
  [dp_defs]: "ZONNSMART_HEATING_STOPPING_ATTR = 0x016B"

definition ZONNSMART_ONLINE_MODE_ENUM_ATTR :: int where
  [dp_defs]: "ZONNSMART_ONLINE_MODE_ENUM_ATTR = 0x0473"

definition ZONNSMART_ONLINE_MODE_BOOL_ATTR :: int where
  [dp_defs]: "ZONNSMART_ONLINE_MODE_BOOL_ATTR = 0x0173"

definition SASWELL_CHILD_LOCK_ATTR :: int where
  [dp_defs]: "SASWELL_CHILD_LOCK_ATTR = 0x0128"

definition SASWELL_ANTI_FREEZE_ATTR :: int where
  [dp_defs]: "SASWELL_ANTI_FREEZE_ATTR = 0x010A"

definition SASWELL_WINDOW_DETECT_ATTR :: int where
  [dp_defs]: "SASWELL_WINDOW_DETECT_ATTR = 0x0108"

definition SASWELL_LIMESCALE_PROTECT_ATTR :: int where
  [dp_defs]: "SASWELL_LIMESCALE_PROTECT_ATTR = 0x0182"

definition SASWELL_TEMP_CORRECTION_ATTR :: int where
  [dp_defs]: "SASWELL_TEMP_CORRECTION_ATTR = 0x021B"

definition SASWELL_AWAY_MODE_ATTR :: int where
  [dp_defs]: "SASWELL_AWAY_MODE_ATTR = 0x016A"

definition SASWELL_SCHEDULE_MODE_ATTR :: int where
  [dp_defs]: "SASWELL_SCHEDULE_MODE_ATTR = 0x016C"

definition SASWELL_ONOFF_ATTR :: int where
  [dp_defs]: "SASWELL_ONOFF_ATTR = 0x0165"

definition SASWELL_BATTERY_ALARM_ATTR :: int where
  [dp_defs]: "SASWELL_BATTERY_ALARM_ATTR = 0x0569"

definition ZONNSMART_MAX_TEMPERATURE_VAL :: int where
  "ZONNSMART_MAX_TEMPERATURE_VAL = 3000"

definition ZONNSMART_MIN_TEMPERATURE_VAL :: int where
  "ZONNSMART_MIN_TEMPERATURE_VAL = 500"

text \<open>
  A write request arrives as the list \<^verbatim>\<open>records\<close> that zigpy's \<^verbatim>\<open>_write_attr_records\<close>
  builds from the caller's dictionary: one record (attribute id, value) for every
  attribute of the cluster, the value converted to the attribute's type. The on/off
  clusters have integer, enumeration and \<^verbatim>\<open>t.Bool\<close> attributes, all integers.
  \<^verbatim>\<open>self.attributes[record.attrid].name\<close> looks the name up in the cluster's attribute
  table; the table of zigpy's OnOff cluster is not part of the repository and is a
  parameter \<open>attrs\<close> of the functions below (id and name).

  A result is the list of \<^verbatim>\<open>WriteAttributesStatusRecord\<close>s returned, or
  \<open>ManufacturerResult\<close> where the method returns what the manufacturer cluster's
  \<^verbatim>\<open>write_attributes\<close> returned for the call it has just been sent.
\<close>

datatype status = SUCCESS | FAILURE

type_synonym status_record = "status \<times> int option"

datatype write_result = StatusRecords "status_record list" | ManufacturerResult

type_synonym write_record = "int \<times> int"

text \<open>
  What a write path can touch outside its own cluster: the module globals
  \<^verbatim>\<open>ZonnsmartManuClusterSelf\<close> (the manufacturer cluster constructed last, named by its
  device) and \<^verbatim>\<open>SaswellManufClusterSelf\<close> (a dictionary from the device's IEEE address
  to its manufacturer cluster), and the calls
  \<^verbatim>\<open>cluster.endpoint.tuya_manufacturer.write_attributes(attrs)\<close> made so far, each with
  the device whose manufacturer cluster received it. A device is named by a number,
  which also stands for its IEEE address.
\<close>

record world =
  ZonnsmartManuClusterSelf :: "nat option"
  SaswellManufClusterSelf :: "nat \<rightharpoonup> nat"
  sent :: "(nat \<times> dp_writes) list"

text \<open>
  \<^verbatim>\<open>ZONNSMARTManufCluster.__init__\<close> and \<^verbatim>\<open>SaswellManufCluster.__init__\<close> for the
  manufacturer cluster of device \<open>dev\<close>.
\<close>

definition ZONNSMARTManufCluster_init :: "nat \<Rightarrow> world \<Rightarrow> world" where
  "ZONNSMARTManufCluster_init dev w = w\<lparr>ZonnsmartManuClusterSelf := Some dev\<rparr>"

definition SaswellManufCluster_init :: "nat \<Rightarrow> world \<Rightarrow> world" where
  "SaswellManufCluster_init dev w =
     w\<lparr>SaswellManufClusterSelf := (SaswellManufClusterSelf w)(dev \<mapsto> dev)\<rparr>"

text \<open>
  \<^verbatim>\<open>manufacturer_attrs.update(new_attrs)\<close> on dictionaries kept as association lists: an
  existing key keeps its place and takes the new value, a new key goes to the end.
\<close>

fun dict_set :: "dp_writes \<Rightarrow> int \<Rightarrow> payload \<Rightarrow> dp_writes" where
  "dict_set [] k v = [(k, v)]"
| "dict_set ((k', v') # rest) k v =
     (if k' = k then (k, v) # rest else (k', v') # dict_set rest k v)"

definition dict_update :: "dp_writes \<Rightarrow> dp_writes \<Rightarrow> dp_writes" where
  "dict_update acc new = foldl (\<lambda>acc' kv. dict_set acc' (fst kv) (snd kv)) acc new"

text \<open>
  \<^verbatim>\<open>map_attribute\<close> of \<^verbatim>\<open>SaswellCustomOnOff\<close> (the empty dictionary) and of its six
  subclasses, which return one write for \<^verbatim>\<open>on_off\<close> and fall off the end, returning
  \<^verbatim>\<open>None\<close>, for every other attribute.
\<close>

definition SaswellCustomOnOff_map_attribute :: "string \<Rightarrow> int \<Rightarrow> dp_writes option" where
  "SaswellCustomOnOff_map_attribute attribute value = Some []"

definition saswell_switch_map_attribute :: "int \<Rightarrow> string \<Rightarrow> int \<Rightarrow> dp_writes option" where
  "saswell_switch_map_attribute dp attribute value =
     (if attribute = ''on_off'' then Some [(dp, Scalar (PInt value))] else None)"

definition SaswellChildLock_map_attribute :: "string \<Rightarrow> int \<Rightarrow> dp_writes option" where
  "SaswellChildLock_map_attribute = saswell_switch_map_attribute SASWELL_CHILD_LOCK_ATTR"

definition SaswellOpenWindowDetection_map_attribute :: "string \<Rightarrow> int \<Rightarrow> dp_writes option" where
  "SaswellOpenWindowDetection_map_attribute = saswell_switch_map_attribute SASWELL_WINDOW_DETECT_ATTR"

definition SaswellAntiFreeze_map_attribute :: "string \<Rightarrow> int \<Rightarrow> dp_writes option" where
  "SaswellAntiFreeze_map_attribute = saswell_switch_map_attribute SASWELL_ANTI_FREEZE_ATTR"

definition SaswellLimescaleProtection_map_attribute :: "string \<Rightarrow> int \<Rightarrow> dp_writes option" where
  "SaswellLimescaleProtection_map_attribute = saswell_switch_map_attribute SASWELL_LIMESCALE_PROTECT_ATTR"

definition SaswellScheduleMode_map_attribute :: "string \<Rightarrow> int \<Rightarrow> dp_writes option" where
  "SaswellScheduleMode_map_attribute = saswell_switch_map_attribute SASWELL_SCHEDULE_MODE_ATTR"

definition SaswellAwayMode_map_attribute :: "string \<Rightarrow> int \<Rightarrow> dp_writes option" where
  "SaswellAwayMode_map_attribute = saswell_switch_map_attribute SASWELL_AWAY_MODE_ATTR"

text \<open>
  The loop of \<^verbatim>\<open>SaswellCustomOnOff.write_attributes\<close> over the records.
  \<^verbatim>\<open>manufacturer_attrs.update(None)\<close> raises \<^verbatim>\<open>TypeError\<close>.
\<close>

definition saswell_record :: "(string \<Rightarrow> int \<Rightarrow> dp_writes option) \<Rightarrow> (int \<times> string) list
    \<Rightarrow> write_record \<Rightarrow> dp_writes \<Rightarrow> py_error + dp_writes" where
  "saswell_record map_attribute attrs r manufacturer_attrs =
     (case map_of attrs (fst r) of
        None \<Rightarrow> Inl KeyError
      | Some attr_name \<Rightarrow>
          (case map_attribute attr_name (snd r) of
             None \<Rightarrow> Inl TypeError
           | Some new_attrs \<Rightarrow> Inr (dict_update manufacturer_attrs new_attrs)))"

fun saswell_collect :: "(string \<Rightarrow> int \<Rightarrow> dp_writes option) \<Rightarrow> (int \<times> string) list
    \<Rightarrow> write_record list \<Rightarrow> dp_writes \<Rightarrow> py_error + dp_writes" where
  "saswell_collect map_attribute attrs [] manufacturer_attrs = Inr manufacturer_attrs"
| "saswell_collect map_attribute attrs (r # rest) manufacturer_attrs =
     (case saswell_record map_attribute attrs r manufacturer_attrs of
        Inl e \<Rightarrow> Inl e
      | Inr manufacturer_attrs' \<Rightarrow> saswell_collect map_attribute attrs rest manufacturer_attrs')"

text \<open>
  \<^verbatim>\<open>SaswellCustomOnOff.write_attributes\<close> of the cluster with method \<open>map_attribute\<close> on
  the device with address \<open>ieee\<close>. The method does not touch the cluster's cache, which
  is returned as it came; the outcome is the result or the exception raised.
\<close>

definition SaswellCustomOnOff_write_attributes ::
  "(string \<Rightarrow> int \<Rightarrow> dp_writes option) \<Rightarrow> (int \<times> string) list \<Rightarrow> nat \<Rightarrow> write_record list
    \<Rightarrow> attr_cache \<Rightarrow> world \<Rightarrow> (py_error + write_result) \<times> attr_cache \<times> world" where
  "SaswellCustomOnOff_write_attributes map_attribute attrs ieee records cache w =
     (if records = [] then (Inr (StatusRecords [(SUCCESS, None)]), cache, w)
      else case saswell_collect map_attribute attrs records [] of
        Inl e \<Rightarrow> (Inl e, cache, w)
      | Inr manufacturer_attrs \<Rightarrow>
          if manufacturer_attrs = []
          then (Inr (StatusRecords (map (\<lambda>r. (FAILURE, Some (fst r))) records)), cache, w)
          else (case SaswellManufClusterSelf w ieee of
                  None \<Rightarrow> (Inl KeyError, cache, w)
                | Some dev \<Rightarrow>
                    (Inr (StatusRecords [(SUCCESS, None)]), cache,
                     w\<lparr>sent := sent w @ [(dev, manufacturer_attrs)]\<rparr>)))"

text \<open>
  \<^verbatim>\<open>MoesWindowDetection\<close>: the ids of its attributes (\<^verbatim>\<open>on_off\<close> is attribute 0 of the
  OnOff cluster), its attribute table (the OnOff table updated with the two added
  attributes), and the loop of \<^verbatim>\<open>write_attributes\<close> over the records, which overwrites
  fields of \<^verbatim>\<open>data\<close> and sets \<^verbatim>\<open>has_change\<close>. The temperature is written as the
  float \<^verbatim>\<open>value / 100\<close>.
\<close>

definition on_off_id :: int where
  [zcl_defs]: "on_off_id = 0x0000"

definition window_detection_temperature_id :: int where
  [zcl_defs]: "window_detection_temperature_id = 0x6000"

definition window_detection_timeout_minutes_id :: int where
  [zcl_defs]: "window_detection_timeout_minutes_id = 0x6001"

definition MoesWindowDetection_attributes :: "(int \<times> string) list \<Rightarrow> (int \<times> string) list" where
  "MoesWindowDetection_attributes attrs =
     [(0x6000, ''window_detection_temperature''),
      (0x6001, ''window_detection_timeout_minutes'')] @ attrs"

definition window_record :: "(int \<times> string) list \<Rightarrow> write_record \<Rightarrow> pyval list \<times> bool
    \<Rightarrow> py_error + pyval list \<times> bool" where
  "window_record attrs r st =
     (case map_of attrs (fst r) of
        None \<Rightarrow> Inl KeyError
      | Some attr_name \<Rightarrow>
          Inr (if attr_name = ''on_off'' then ((fst st)[2 := PInt (snd r)], True)
               else if attr_name = ''window_detection_temperature''
               then ((fst st)[1 := PQuot (snd r) 100], True)
               else if attr_name = ''window_detection_timeout_minutes''
               then ((fst st)[0 := PInt (snd r)], True)
               else st))"

fun window_records :: "(int \<times> string) list \<Rightarrow> write_record list \<Rightarrow> pyval list \<times> bool
    \<Rightarrow> py_error + pyval list \<times> bool" where
  "window_records attrs [] st = Inr st"
| "window_records attrs (r # rest) st =
     (case window_record attrs r st of
        Inl e \<Rightarrow> Inl e
      | Inr st' \<Rightarrow> window_records attrs rest st')"

text \<open>
  \<^verbatim>\<open>MoesWindowDetection.write_attributes\<close> on device \<open>dev\<close>. The three fields are read
  from the cache first, with the defaults 5, 50 (before the division by 100) and
  \<^verbatim>\<open>False\<close>; the cache holds the integers that \<^verbatim>\<open>window_detect_change\<close> stored.
\<close>

definition MoesWindowDetection_write_attributes ::
  "(int \<times> string) list \<Rightarrow> nat \<Rightarrow> write_record list
    \<Rightarrow> attr_cache \<Rightarrow> world \<Rightarrow> (py_error + write_result) \<times> attr_cache \<times> world" where
  "MoesWindowDetection_write_attributes attrs dev records cache w =
     (if records = [] then (Inr (StatusRecords [(SUCCESS, None)]), cache, w)
      else
        (let data =
           [PInt (cache_get cache window_detection_timeout_minutes_id 5),
            PInt (py_round_div (cache_get cache window_detection_temperature_id 50) 100),
            (case cache on_off_id of None \<Rightarrow> PBool False | Some v \<Rightarrow> PInt v)]
         in case window_records (MoesWindowDetection_attributes attrs) records (data, False) of
              Inl e \<Rightarrow> (Inl e, cache, w)
            | Inr (data', has_change) \<Rightarrow>
                if has_change
                then (Inr ManufacturerResult, cache,
                      w\<lparr>sent := sent w @ [(dev, [(MOES_WINDOW_DETECT_ATTR, Data data')])]\<rparr>)
                else (Inr (StatusRecords (map (\<lambda>r. (FAILURE, Some (fst r))) records)), cache, w)))"

text \<open>
  \<^verbatim>\<open>ZONNSMARTHelperOnOff\<close>: \<^verbatim>\<open>get_attr_val_to_write\<close> of the class and of its three
  subclasses, the loop of \<^verbatim>\<open>write_attributes\<close> (the last \<^verbatim>\<open>on_off\<close> record gives the
  value), and \<^verbatim>\<open>write_attributes\<close>, which sends through the global
  \<^verbatim>\<open>ZonnsmartManuClusterSelf\<close>; \<^verbatim>\<open>None.endpoint\<close> raises \<^verbatim>\<open>AttributeError\<close>.
\<close>

definition ZONNSMARTHelperOnOff_get_attr_val_to_write :: "int \<Rightarrow> dp_writes option" where
  "ZONNSMARTHelperOnOff_get_attr_val_to_write value = None"

definition ZONNSMARTBoost_get_attr_val_to_write :: "int \<Rightarrow> dp_writes option" where
  "ZONNSMARTBoost_get_attr_val_to_write value =
     Some [(ZONNSMART_BOOST_TIME_ATTR, Scalar (PInt (if value \<noteq> 0 then 299 else 0)))]"

definition ZONNSMARTChildLock_get_attr_val_to_write :: "int \<Rightarrow> dp_writes option" where
  "ZONNSMARTChildLock_get_attr_val_to_write value =
     Some [(ZONNSMART_CHILD_LOCK_ATTR, Scalar (PInt value))]"

definition ZONNSMARTOnlineMode_get_attr_val_to_write :: "int \<Rightarrow> dp_writes option" where
  "ZONNSMARTOnlineMode_get_attr_val_to_write value =
     Some [(ZONNSMART_ONLINE_MODE_BOOL_ATTR, Scalar (PInt value))]"

definition helper_record :: "(int \<times> string) list \<Rightarrow> write_record \<Rightarrow> int option
    \<Rightarrow> py_error + int option" where
  "helper_record attrs r value =
     (case map_of attrs (fst r) of
        None \<Rightarrow> Inl KeyError
      | Some attr_name \<Rightarrow> Inr (if attr_name = ''on_off'' then Some (snd r) else value))"

fun helper_records :: "(int \<times> string) list \<Rightarrow> write_record list \<Rightarrow> int option
    \<Rightarrow> py_error + int option" where
  "helper_records attrs [] value = Inr value"
| "helper_records attrs (r # rest) value =
     (case helper_record attrs r value of
        Inl e \<Rightarrow> Inl e
      | Inr value' \<Rightarrow> helper_records attrs rest value')"

definition ZONNSMARTHelperOnOff_write_attributes ::
  "(int \<Rightarrow> dp_writes option) \<Rightarrow> (int \<times> string) list \<Rightarrow> nat \<Rightarrow> write_record list
    \<Rightarrow> attr_cache \<Rightarrow> world \<Rightarrow> (py_error + write_result) \<times> attr_cache \<times> world" where
  "ZONNSMARTHelperOnOff_write_attributes get_attr_val_to_write attrs dev records cache w =
     (if records = [] then (Inr (StatusRecords [(SUCCESS, None)]), cache, w)
      else case helper_records attrs records None of
        Inl e \<Rightarrow> (Inl e, cache, w)
      | Inr changed \<Rightarrow>
          (case (case changed of None \<Rightarrow> None | Some value \<Rightarrow> get_attr_val_to_write value) of
             None \<Rightarrow> (Inr (StatusRecords (map (\<lambda>r. (FAILURE, Some (fst r))) records)), cache, w)
           | Some attr_val \<Rightarrow>
               (case ZonnsmartManuClusterSelf w of
                  None \<Rightarrow> (Inl AttributeError, cache, w)
                | Some target \<Rightarrow>
                    (Inr ManufacturerResult, cache,
                     w\<lparr>sent := sent w @ [(target, attr_val)]\<rparr>))))"

text \<open>
  \<^verbatim>\<open>ZONNSMARTWindowOpenedTemp.write_attributes\<close> takes the caller's dictionary itself:
  a key is an attribute id or a name (looked up in \<^verbatim>\<open>attributes_by_name\<close>, the inverse
  of the attribute table of zigpy's AnalogOutput cluster, the parameter \<open>attrs\<close>), a value
  is the number that the caller passed. Each entry with a valid id is stored in the
  cluster's own cache and then sent, times 10, through the global. Like the on/off
  helper, the method never uses its own device \<open>dev\<close>.
\<close>

definition times10 :: "pyval \<Rightarrow> pyval" where
  "times10 value =
     (case value of
        PInt n \<Rightarrow> PInt (n * 10)
      | PBool b \<Rightarrow> PInt (if b then 10 else 0)
      | PQuot a b \<Rightarrow> PQuotTimes a b 10
      | PQuotTimes a b k \<Rightarrow> PQuotTimes a b (k * 10))"

datatype attr_key = ById int | ByName string

definition attr_key_id :: "(int \<times> string) list \<Rightarrow> attr_key \<Rightarrow> int option" where
  "attr_key_id attrs key =
     (case key of
        ById i \<Rightarrow> Some i
      | ByName name \<Rightarrow> attributes_by_name attrs name)"

fun ZONNSMARTWindowOpenedTemp_write_attributes ::
  "(int \<times> string) list \<Rightarrow> nat \<Rightarrow> (attr_key \<times> pyval) list
    \<Rightarrow> (int \<rightharpoonup> pyval) \<Rightarrow> world \<Rightarrow> (py_error + write_result) \<times> (int \<rightharpoonup> pyval) \<times> world" where
  "ZONNSMARTWindowOpenedTemp_write_attributes attrs dev [] cache w =
     (Inr (StatusRecords [(SUCCESS, None)]), cache, w)"
| "ZONNSMARTWindowOpenedTemp_write_attributes attrs dev (kv # rest) cache w =
     (case attr_key_id attrs (fst kv) of
        None \<Rightarrow> (Inl KeyError, cache, w)
      | Some attrid \<Rightarrow>
          if map_of attrs attrid = None
          then ZONNSMARTWindowOpenedTemp_write_attributes attrs dev rest cache w
          else (case ZonnsmartManuClusterSelf w of
                  None \<Rightarrow> (Inl AttributeError, cache(attrid \<mapsto> snd kv), w)
                | Some target \<Rightarrow>
                    ZONNSMARTWindowOpenedTemp_write_attributes attrs dev rest (cache(attrid \<mapsto> snd kv))
                      (w\<lparr>sent := sent w @
                          [(target, [(ZONNSMART_OPENED_WINDOW_TEMP, Scalar (times10 (snd kv)))])]\<rparr>)))"

section \<open>Update dispatcher of the manufacturer clusters\<close>

text \<open>
  A device is the attribute caches of its clusters: the manufacturer cluster (which
  stores every reported datapoint), the thermostat cluster, and the other local
  clusters, each named by its function on the device. \<^verbatim>\<open>cluster._update_attribute(id,
  value)\<close> of zigpy stores the value in the cache and notifies the listeners of the
  cluster; an \<open>update\<close> is one such call, and the list of updates of a dispatch is the
  sequence of attribute notifications that it emits.
\<close>

datatype cluster =
  UserInterface | PowerConfiguration | WindowDetection | ChildLock | AntiFreeze
  | LimescaleProtection | ScheduleMode | AwayMode | TemperatureOffset | WindowOpenedTemp
  | Boost | OnlineMode

record device =
  manufacturer :: "int \<rightharpoonup> payload"
  thermostat :: attr_cache
  local_caches :: "cluster \<Rightarrow> int \<rightharpoonup> pyval"

datatype update =
  ManufacturerUpdate int payload | ThermostatUpdate int int | LocalUpdate cluster int pyval

fun apply_update :: "device \<Rightarrow> update \<Rightarrow> device" where
  "apply_update d (ManufacturerUpdate a v) = d\<lparr>manufacturer := (manufacturer d)(a \<mapsto> v)\<rparr>"
| "apply_update d (ThermostatUpdate a v) = d\<lparr>thermostat := (thermostat d)(a \<mapsto> v)\<rparr>"
| "apply_update d (LocalUpdate c a v) =
     d\<lparr>local_caches := (local_caches d)(c := (local_caches d c)(a \<mapsto> v))\<rparr>"

definition apply_updates :: "update list \<Rightarrow> device \<Rightarrow> device" where
  "apply_updates us d = foldl apply_update d us"

text \<open>
  \<^verbatim>\<open>_update_attribute\<close> of a manufacturer cluster is a sequence of statements, each of
  which calls listeners through \<^verbatim>\<open>bus.listener_event\<close>; delivery is synchronous, so a
  listener sees the caches as the listeners before it left them. A \<open>listener\<close> gives
  the updates that one statement causes in a given state of the device;
  \<open>dispatch\<close> runs the statements in order and returns the final device and all updates
  in the order of their emission. An exception inside a listener ends that listener;
  every listener that can raise is the last statement of its method.
\<close>

type_synonym listener = "device \<Rightarrow> update list"

definition dispatch_step :: "device \<times> update list \<Rightarrow> listener \<Rightarrow> device \<times> update list" where
  "dispatch_step s h = (apply_updates (h (fst s)) (fst s), snd s @ h (fst s))"

definition dispatch :: "listener list \<Rightarrow> device \<Rightarrow> device \<times> update list" where
  "dispatch hs d = foldl dispatch_step (d, []) hs"

text \<open>
  A sequence of reports, each handled to completion before the next: the final device
  and the updates emitted over the whole run.
\<close>

fun run_reports :: "('r \<Rightarrow> device \<Rightarrow> device \<times> update list) \<Rightarrow> 'r list \<Rightarrow> device
    \<Rightarrow> device \<times> update list" where
  "run_reports handle [] d = (d, [])"
| "run_reports handle (r # rs) d =
     (case handle r d of (d', us) \<Rightarrow>
        (case run_reports handle rs d' of (d'', us') \<Rightarrow> (d'', us @ us')))"

text \<open>
  Modelled from the spec: \<^verbatim>\<open>TuyaThermostatCluster.temperature_change(attr, value)\<close>,
  the listener of the \<^verbatim>\<open>temperature_change\<close> event, is defined in
  \<^verbatim>\<open>zhaquirks/tuya/__init__.py\<close>, which is not among the sources. The spec has a
  translation rule deliver its result to the attribute it targets; the tests of the
  repository fix the update: the attribute named \<open>attr\<close> takes \<open>value\<close> (a report of 15
  for the target temperature updates attribute \<^verbatim>\<open>0x0012\<close> to 150). A name outside the
  attribute table raises \<^verbatim>\<open>KeyError\<close> before any update.
\<close>

definition temperature_change :: "(int \<times> string) list \<Rightarrow> string \<Rightarrow> int \<Rightarrow> (int \<times> int) list" where
  "temperature_change attrs attr value =
     (case attributes_by_name attrs attr of None \<Rightarrow> [] | Some i \<Rightarrow> [(i, value)])"

text \<open>
  Two listeners of the base classes \<^verbatim>\<open>TuyaUserInterfaceCluster\<close>
  (\<^verbatim>\<open>child_lock_change\<close>) and \<^verbatim>\<open>TuyaPowerConfigurationCluster\<close>
  (\<^verbatim>\<open>battery_change\<close>) are defined outside the sources and nothing in the sources
  fixes what they store. They are parameters of the dispatchers: each gives the
  updates of its own cluster for the value of the event.
\<close>

record base_listeners =
  child_lock_change :: "int \<Rightarrow> (int \<times> pyval) list"
  battery_change :: "int \<Rightarrow> (int \<times> pyval) list"

definition thermostat_updates :: "(int \<times> int) list \<Rightarrow> update list" where
  "thermostat_updates us = map (\<lambda>u. ThermostatUpdate (fst u) (snd u)) us"

definition local_updates :: "cluster \<Rightarrow> (int \<times> pyval) list \<Rightarrow> update list" where
  "local_updates c us = map (\<lambda>u. LocalUpdate c (fst u) (snd u)) us"

text \<open>
  The transform of a \<^verbatim>\<open>DIRECT_MAPPED_ATTRS\<close> entry: \<^verbatim>\<open>lambda value: value * k\<close>,
  \<^verbatim>\<open>None\<close> (the value as it is), or \<^verbatim>\<open>lambda value: f if value else 0\<close>.
  \<^verbatim>\<open>round(value * 10)\<close> of an integer is \<^verbatim>\<open>value * 10\<close>.
\<close>

datatype forward = Times int | Unchanged | Flag int

fun apply_forward :: "forward \<Rightarrow> int \<Rightarrow> int" where
  "apply_forward (Times k) value = value * k"
| "apply_forward Unchanged value = value"
| "apply_forward (Flag f) value = (if value \<noteq> 0 then f else 0)"

definition direct_mapped :: "(int \<times> string \<times> forward) list \<Rightarrow> (int \<times> string) list
    \<Rightarrow> int \<Rightarrow> int \<Rightarrow> update list" where
  "direct_mapped table attrs attrid value =
     (case map_of table attrid of
        None \<Rightarrow> []
      | Some (attr, f) \<Rightarrow> thermostat_updates (temperature_change attrs attr (apply_forward f value)))"

definition present_value_id :: int where
  [zcl_defs]: "present_value_id = 0x0055"

definition battery_percentage_remaining_id :: int where
  [zcl_defs]: "battery_percentage_remaining_id = 0x0021"

definition auto_lock_id :: int where
  [zcl_defs]: "auto_lock_id = 0x5000"

subsection \<open>Saswell\<close>

definition SaswellManufCluster_DIRECT_MAPPED_ATTRS :: "(int \<times> string \<times> forward) list" where
  "SaswellManufCluster_DIRECT_MAPPED_ATTRS =
    [(SASWELL_ROOM_TEMP_ATTR, ''local_temperature'', Times 10),
     (SASWELL_TARGET_TEMP_ATTR, ''occupied_heating_setpoint'', Times 10),
     (SASWELL_TEMP_CORRECTION_ATTR, ''local_temperature_calibration'', Times 10)]"

text \<open>\<^verbatim>\<open>SaswellPowerConfigurationCluster.battery_alarm_event(value)\<close>.\<close>

definition battery_alarm_event :: "int \<Rightarrow> (int \<times> pyval) list" where
  "battery_alarm_event value =
     (if value = 1 then [(battery_percentage_remaining_id, PInt 0)]
      else [(battery_percentage_remaining_id, PInt 200)])"

text \<open>
  The second statement of \<^verbatim>\<open>SaswellManufCluster._update_attribute\<close>, the chain of
  \<^verbatim>\<open>if attrid == ...\<close>. The switch clusters store the value as \<^verbatim>\<open>on_off\<close>, the
  temperature offset cluster as \<^verbatim>\<open>present_value\<close>.
\<close>

definition saswell_events :: "base_listeners \<Rightarrow> int \<Rightarrow> int \<Rightarrow> listener" where
  "saswell_events base attrid value d =
     (if attrid = SASWELL_ONOFF_ATTR then thermostat_updates (on_off_event value)
      else if attrid = SASWELL_SCHEDULE_MODE_ATTR then [LocalUpdate ScheduleMode on_off_id (PInt value)]
      else if attrid = SASWELL_AWAY_MODE_ATTR then [LocalUpdate AwayMode on_off_id (PInt value)]
      else if attrid = SASWELL_CHILD_LOCK_ATTR
      then local_updates UserInterface (child_lock_change base value)
           @ [LocalUpdate ChildLock on_off_id (PInt value)]
      else if attrid = SASWELL_WINDOW_DETECT_ATTR
      then [LocalUpdate WindowDetection on_off_id (PInt value)]
      else if attrid = SASWELL_ANTI_FREEZE_ATTR then [LocalUpdate AntiFreeze on_off_id (PInt value)]
      else if attrid = SASWELL_LIMESCALE_PROTECT_ATTR
      then [LocalUpdate LimescaleProtection on_off_id (PInt value)]
      else if attrid = SASWELL_BATTERY_ALARM_ATTR
      then local_updates PowerConfiguration (battery_alarm_event value)
      else if attrid = SASWELL_TEMP_CORRECTION_ATTR
      then [LocalUpdate TemperatureOffset present_value_id (PInt value)]
      else if attrid \<in> {SASWELL_ROOM_TEMP_ATTR, SASWELL_TARGET_TEMP_ATTR}
      then thermostat_updates (deliver (hass_climate_state_change (thermostat d) attrid value))
      else [])"

text \<open>
  \<^verbatim>\<open>SaswellManufCluster._update_attribute(attrid, value)\<close>: the update of the
  manufacturer cluster itself, the direct mapping, the chain. All Saswell datapoints
  are integers.
\<close>

definition SaswellManufCluster_update_attribute ::
  "base_listeners \<Rightarrow> int \<times> int \<Rightarrow> device \<Rightarrow> device \<times> update list" where
  "SaswellManufCluster_update_attribute base r =
     (case r of (attrid, value) \<Rightarrow>
        dispatch
          [\<lambda>d. [ManufacturerUpdate attrid (Scalar (PInt value))],
           \<lambda>d. direct_mapped SaswellManufCluster_DIRECT_MAPPED_ATTRS Thermostat_attributes attrid value,
           saswell_events base attrid value])"

subsection \<open>Moes\<close>

definition MoesManufCluster_DIRECT_MAPPED_ATTRS :: "(int \<times> string \<times> forward) list" where
  "MoesManufCluster_DIRECT_MAPPED_ATTRS =
    [(MOES_TEMPERATURE_ATTR, ''local_temperature'', Times 10),
     (MOES_TARGET_TEMP_ATTR, ''occupied_heating_setpoint'', Times 10),
     (MOES_AWAY_TEMP_ATTR, ''unoccupied_heating_setpoint'', Times 100),
     (MOES_COMFORT_TEMP_ATTR, ''comfort_heating_setpoint'', Times 100),
     (MOES_ECO_TEMP_ATTR, ''eco_heating_setpoint'', Times 100),
     (MOES_TEMP_CALIBRATION_ATTR, ''local_temperature_calibration'', Times 10),
     (MOES_MIN_TEMPERATURE_ATTR, ''min_heat_setpoint_limit'', Times 100),
     (MOES_MAX_TEMPERATURE_ATTR, ''max_heat_setpoint_limit'', Times 100),
     (MOES_VALVE_STATE_ATTR, ''valve_open_percentage'', Unchanged),
     (MOES_AWAY_DAYS_ATTR, ''unoccupied_duration_days'', Unchanged),
     (MOES_BOOST_TIME_ATTR, ''boost_duration_seconds'', Unchanged),
     (MOES_MODE_ATTR, ''operation_preset'', Unchanged),
     (MOES_WEEK_FORMAT_ATTR, ''work_days'', Unchanged),
     (MOES_FORCE_VALVE_ATTR, ''valve_force_state'', Unchanged)]"

text \<open>\<^verbatim>\<open>MoesThermostat.mode_change(value)\<close>.\<close>

definition MoesThermostat_mode_change :: "int \<Rightarrow> (int \<times> int) list" where
  "MoesThermostat_mode_change value =
     (let (prog_mode, occupancy) =
        (if value = 0 then (ProgrammingOperationMode_Simple, Occupancy_Unoccupied)
         else if value = 1
         then (ProgrammingOperationMode_Schedule_programming_mode, Occupancy_Occupied)
         else if value \<in> {2, 3} then (ProgrammingOperationMode_Simple, Occupancy_Occupied)
         else if value = 4 then (ProgrammingOperationMode_Economy_mode, Occupancy_Occupied)
         else if value = 5 then (ProgrammingOperationMode_Simple, Occupancy_Occupied)
         else (ProgrammingOperationMode_Simple, Occupancy_Occupied))
      in [(programing_oper_mode_id, prog_mode), (occupancy_id, occupancy)])"

text \<open>
  \<^verbatim>\<open>MoesThermostat.schedule_change(attr, value)\<close> for a list \<open>value\<close>. The first
  statement reads \<^verbatim>\<open>value[17]\<close>, the highest index of all, so a list shorter than 18
  raises \<^verbatim>\<open>IndexError\<close> before any update. \<^verbatim>\<open>x & 0x3F\<close> is \<open>x mod 64\<close>.
\<close>

definition schedule_change :: "int \<Rightarrow> int list \<Rightarrow> (int \<times> int) list" where
  "schedule_change attr value =
     (if length value < 18 then []
      else if attr = MOES_SCHEDULE_WORKDAY_ATTR then
            [
             (0x4110, (value ! 17) mod 64), (0x4111, value ! 16), (0x4112, (value ! 15) * 100),
             (0x4120, (value ! 14) mod 64), (0x4121, value ! 13), (0x4122, (value ! 12) * 100),
             (0x4130, (value ! 11) mod 64), (0x4131, value ! 10), (0x4132, (value ! 9) * 100),
             (0x4140, (value ! 8) mod 64), (0x4141, value ! 7), (0x4142, (value ! 6) * 100),
             (0x4150, (value ! 5) mod 64), (0x4151, value ! 4), (0x4152, (value ! 3) * 100),
             (0x4160, (value ! 2) mod 64), (0x4161, value ! 1), (0x4162, (value ! 0) * 100)]
      else if attr = MOES_SCHEDULE_WEEKEND_ATTR then
            [
             (0x4210, (value ! 17) mod 64), (0x4211, value ! 16), (0x4212, (value ! 15) * 100),
             (0x4220, (value ! 14) mod 64), (0x4221, value ! 13), (0x4222, (value ! 12) * 100),
             (0x4230, (value ! 11) mod 64), (0x4231, value ! 10), (0x4232, (value ! 9) * 100),
             (0x4240, (value ! 8) mod 64), (0x4241, value ! 7), (0x4242, (value ! 6) * 100),
             (0x4250, (value ! 5) mod 64), (0x4251, value ! 4), (0x4252, (value ! 3) * 100),
             (0x4260, (value ! 2) mod 64), (0x4261, value ! 1), (0x4262, (value ! 0) * 100)]
      else [])"

text \<open>
  \<^verbatim>\<open>MoesWindowDetection.window_detect_change(value)\<close> for a list \<open>value\<close>: three
  updates, each after reading one element; a short list raises \<^verbatim>\<open>IndexError\<close> at
  the first missing element, after the updates before it.
\<close>

definition window_detect_change :: "int list \<Rightarrow> (int \<times> pyval) list" where
  "window_detect_change value =
     take (length value)
       [(window_detection_timeout_minutes_id, PInt (value ! 0)),
        (window_detection_temperature_id, PInt ((value ! 1) * 100)),
        (on_off_id, PInt (value ! 2))]"

text \<open>\<^verbatim>\<open>MoesUserInterface.autolock_change(value)\<close>.\<close>

definition autolock_change :: "int \<Rightarrow> (int \<times> pyval) list" where
  "autolock_change value = [(auto_lock_id, PInt value)]"

text \<open>
  A report as it reaches \<^verbatim>\<open>MoesManufCluster._update_attribute\<close>: the manufacturer
  cluster converts a datapoint with the type that \<^verbatim>\<open>attributes\<close> declares for it, a
  list for the three raw datapoints (\<^verbatim>\<open>data24\<close>, \<^verbatim>\<open>data144\<close>) and an integer for
  every other one.
\<close>

datatype moes_raw = RawWindowDetect | RawScheduleWorkday | RawScheduleWeekend

fun moes_raw_attrid :: "moes_raw \<Rightarrow> int" where
  "moes_raw_attrid RawWindowDetect = MOES_WINDOW_DETECT_ATTR"
| "moes_raw_attrid RawScheduleWorkday = MOES_SCHEDULE_WORKDAY_ATTR"
| "moes_raw_attrid RawScheduleWeekend = MOES_SCHEDULE_WEEKEND_ATTR"

datatype moes_report = IntReport int int | RawReport moes_raw "int list"

text \<open>
  The second statement of \<^verbatim>\<open>MoesManufCluster._update_attribute\<close> for an integer: the
  chain of \<^verbatim>\<open>if attrid == ...\<close>. An integer under the id of the window detection
  datapoint would raise \<^verbatim>\<open>TypeError\<close> in the listener, which indexes it.
  \<^verbatim>\<open>state_change\<close> is the listener of the thermostat base class.
\<close>

definition moes_events :: "base_listeners \<Rightarrow> int \<Rightarrow> int \<Rightarrow> listener" where
  "moes_events base attrid value d =
     (if attrid = MOES_WINDOW_DETECT_ATTR then []
      else if attrid = MOES_MODE_ATTR then thermostat_updates (MoesThermostat_mode_change value)
      else if attrid = MOES_VALVE_STATE_ATTR then thermostat_updates (state_change value)
      else if attrid = MOES_CHILD_LOCK_ATTR
      then local_updates UserInterface (child_lock_change base (if value \<noteq> 0 then 1 else 0))
      else if attrid = MOES_AUTO_LOCK_ATTR
      then local_updates UserInterface (autolock_change (if value \<noteq> 0 then 1 else 0))
      else if attrid = MOES_BATTERY_LOW_ATTR
      then local_updates PowerConfiguration (battery_change base (if value \<noteq> 0 then 5 else 100))
      else [])"

text \<open>
  \<^verbatim>\<open>MoesManufCluster._update_attribute(attrid, value)\<close>. For an integer: the update of
  the manufacturer cluster, the direct mapping (an integer under the id of a schedule
  datapoint would raise \<^verbatim>\<open>TypeError\<close> in \<^verbatim>\<open>schedule_change\<close>), the chain. For a
  list: the update of the manufacturer cluster, \<^verbatim>\<open>schedule_change\<close> for the two
  schedules, \<^verbatim>\<open>window_detect_change\<close> for the window detection.
\<close>

fun MoesManufCluster_update_attribute ::
  "base_listeners \<Rightarrow> moes_report \<Rightarrow> device \<Rightarrow> device \<times> update list" where
  "MoesManufCluster_update_attribute base (IntReport attrid value) =
     dispatch
       [\<lambda>d. [ManufacturerUpdate attrid (Scalar (PInt value))],
        \<lambda>d. direct_mapped MoesManufCluster_DIRECT_MAPPED_ATTRS MoesThermostat_attributes attrid value,
        moes_events base attrid value]"
| "MoesManufCluster_update_attribute base (RawReport raw value) =
     dispatch
       [\<lambda>d. [ManufacturerUpdate (moes_raw_attrid raw) (Data (map PInt value))],
        \<lambda>d. (if raw = RawWindowDetect then []
              else thermostat_updates (schedule_change (moes_raw_attrid raw) value)),
        \<lambda>d. (if raw = RawWindowDetect
              then local_updates WindowDetection (window_detect_change value) else [])]"

subsection \<open>ZONNSMART\<close>

definition alarm_mask_id :: int where
  [zcl_defs]: "alarm_mask_id = 0x001D"

definition ZONNSMARTManufCluster_DIRECT_MAPPED_ATTRS :: "(int \<times> string \<times> forward) list" where
  "ZONNSMARTManufCluster_DIRECT_MAPPED_ATTRS =
    [(ZONNSMART_TEMPERATURE_ATTR, ''local_temperature'', Times 10),
     (ZONNSMART_TEMPERATURE_CALIBRATION_ATTR, ''local_temperature_calibration'', Times 10),
     (ZONNSMART_TARGET_TEMP_ATTR, ''occupied_heating_setpoint'', Times 10),
     (ZONNSMART_HOLIDAY_TEMP_ATTR, ''unoccupied_heating_setpoint'', Times 10),
     (ZONNSMART_FAULT_DETECTION_ATTR, ''alarm_mask'', Flag 0x02)]"

text \<open>
  The attribute table of \<^verbatim>\<open>ZONNSMARTThermostat\<close>, and its listeners
  \<^verbatim>\<open>mode_change(attrid, value)\<close> (the presets are \<^verbatim>\<open>Schedule = 0\<close>, \<^verbatim>\<open>Manual = 1\<close>,
  \<^verbatim>\<open>Holiday = 2\<close>, \<^verbatim>\<open>HolidayTemp = 3\<close>, \<^verbatim>\<open>FrostProtect = 4\<close>) and
  \<^verbatim>\<open>system_mode_change(value)\<close> for the boolean \<^verbatim>\<open>value == 0\<close> of the report.
\<close>

definition ZONNSMARTThermostat_attributes :: "(int \<times> string) list" where
  "ZONNSMARTThermostat_attributes = Thermostat_attributes @ [(0x4002, ''operation_preset'')]"

definition ZONNSMARTThermostat_mode_change :: "int \<Rightarrow> int \<Rightarrow> (int \<times> int) list" where
  "ZONNSMARTThermostat_mode_change attrid value =
     (if attrid = ZONNSMART_MODE_ATTR then
        (if value = 0
         then [(programing_oper_mode_id, ProgrammingOperationMode_Schedule_programming_mode),
               (operation_preset_id, 0)]
         else if value = 1
         then [(programing_oper_mode_id, ProgrammingOperationMode_Simple), (operation_preset_id, 1)]
         else if value = 2
         then [(programing_oper_mode_id, ProgrammingOperationMode_Simple), (operation_preset_id, 2)]
         else if value = 3
         then [(programing_oper_mode_id, ProgrammingOperationMode_Schedule_programming_mode),
               (operation_preset_id, 3)]
         else [])
      else if attrid = ZONNSMART_FROST_PROTECT_ATTR then
        (if value = 1 then [(operation_preset_id, 4)] else [])
      else [])"

definition system_mode_change :: "bool \<Rightarrow> (int \<times> int) list" where
  "system_mode_change value =
     [(system_mode_id, if value then SystemMode_Heat else SystemMode_Off)]"

text \<open>
  The first chain of \<^verbatim>\<open>ZONNSMARTManufCluster._update_attribute\<close>, which starts with
  the direct mapping, and the second one. The two analog clusters store the float
  \<^verbatim>\<open>value / 10\<close>.
\<close>

definition zonnsmart_events :: "base_listeners \<Rightarrow> int \<Rightarrow> int \<Rightarrow> listener" where
  "zonnsmart_events base attrid value d =
     (if map_of ZONNSMARTManufCluster_DIRECT_MAPPED_ATTRS attrid \<noteq> None
      then direct_mapped ZONNSMARTManufCluster_DIRECT_MAPPED_ATTRS ZONNSMARTThermostat_attributes
             attrid value
      else if attrid = ZONNSMART_WINDOW_DETECT_ATTR
      then [LocalUpdate WindowDetection present_value_id (PInt value)]
      else if attrid = ZONNSMART_OPENED_WINDOW_TEMP
      then [LocalUpdate WindowOpenedTemp present_value_id (PQuot value 10)]
      else if attrid \<in> {ZONNSMART_MODE_ATTR, ZONNSMART_FROST_PROTECT_ATTR}
      then thermostat_updates (ZONNSMARTThermostat_mode_change attrid value)
      else if attrid = ZONNSMART_HEATING_STOPPING_ATTR
      then thermostat_updates (system_mode_change (value = 0))
      else if attrid = ZONNSMART_CHILD_LOCK_ATTR
      then local_updates UserInterface (child_lock_change base value)
           @ [LocalUpdate ChildLock on_off_id (PInt value)]
      else if attrid = ZONNSMART_BATTERY_ATTR
      then local_updates PowerConfiguration (battery_change base value)
      else if attrid = ZONNSMART_ONLINE_MODE_ENUM_ATTR
      then [LocalUpdate OnlineMode on_off_id (PInt value)]
      else if attrid = ZONNSMART_BOOST_TIME_ATTR
      then [LocalUpdate Boost on_off_id (PInt (if value > 0 then 1 else 0))]
      else [])"

definition zonnsmart_state :: "int \<Rightarrow> int \<Rightarrow> listener" where
  "zonnsmart_state attrid value d =
     (if attrid = ZONNSMART_TEMPERATURE_CALIBRATION_ATTR
      then [LocalUpdate TemperatureOffset present_value_id (PQuot value 10)]
      else if attrid \<in> {ZONNSMART_TEMPERATURE_ATTR, ZONNSMART_TARGET_TEMP_ATTR}
      then thermostat_updates (deliver (state_temp_change (thermostat d) attrid value))
      else [])"

text \<open>
  \<^verbatim>\<open>ZONNSMARTManufCluster._update_attribute(attrid, value)\<close>. All ZONNSMART
  datapoints are integers.
\<close>

definition ZONNSMARTManufCluster_update_attribute ::
  "base_listeners \<Rightarrow> int \<times> int \<Rightarrow> device \<Rightarrow> device \<times> update list" where
  "ZONNSMARTManufCluster_update_attribute base r =
     (case r of (attrid, value) \<Rightarrow>
        dispatch
          [\<lambda>d. [ManufacturerUpdate attrid (Scalar (PInt value))],
           zonnsmart_events base attrid value,
           zonnsmart_state attrid value])"

text \<open>
  Two updates write the same cache entry when they name the same cluster and the same
  attribute; the later one then decides the value.
\<close>

fun same_key :: "update \<Rightarrow> update \<Rightarrow> bool" where
  "same_key (ManufacturerUpdate a v) (ManufacturerUpdate b w) = (a = b)"
| "same_key (ThermostatUpdate a v) (ThermostatUpdate b w) = (a = b)"
| "same_key (LocalUpdate c a v) (LocalUpdate c' b w) = (c = c' \<and> a = b)"
| "same_key _ _ = False"

text \<open>
  Two devices agree on a set \<open>K\<close> of attribute ids when their thermostat caches hold the
  same values there. The calculators are the only listeners that read a cache:
  \<open>saswell_reads\<close> and \<open>zonnsmart_reads\<close> are the entries of the thermostat cache that
  \<^verbatim>\<open>hass_climate_state_change\<close> and \<^verbatim>\<open>state_temp_change\<close> read for a report of the
  given datapoint (the other temperature comes with the report).
\<close>

definition agree_on :: "int set \<Rightarrow> device \<Rightarrow> device \<Rightarrow> bool" where
  "agree_on K d1 d2 = (\<forall>k \<in> K. thermostat d1 k = thermostat d2 k)"

definition saswell_reads :: "int \<Rightarrow> int set" where
  "saswell_reads attrid =
     (if attrid = SASWELL_ROOM_TEMP_ATTR then {system_mode_id, occupied_heating_setpoint_id}
      else if attrid = SASWELL_TARGET_TEMP_ATTR then {system_mode_id, local_temperature_id}
      else {})"

definition zonnsmart_reads :: "int \<Rightarrow> int set" where
  "zonnsmart_reads attrid =
     (if attrid = ZONNSMART_TEMPERATURE_ATTR then {occupied_heating_setpoint_id}
      else if attrid = ZONNSMART_TARGET_TEMP_ATTR then {local_temperature_id}
      else {})"

section \<open>Theorems\<close>

lemma running_states_state_change:
  "running_states (state_change v) =
     [if v = 0 then RunningState_Idle else RunningState_Heat_State_On]"
  by (simp add: running_states_def state_change_def zcl_defs)

text \<open>
  C1 (as amended). In heat mode with a cached target \<open>temp_set\<close>, a room temperature
  report \<open>value\<close> gives running state Idle exactly when \<open>value * 10 \<ge> temp_set + 2\<close> and
  Heating otherwise; the same comparison decides when the target arrives and the
  current temperature is cached. With the target datapoint at 250 (cached 2500) this
  is Heating for a reading of 248 and Idle for a reading of 252. A report that switches
  the device off gives Idle, and so does any temperature report while the cached system
  mode is not Heat.
\<close>

theorem saswell_heat_comparator:
  "(cache system_mode_id = Some SystemMode_Heat \<and> cache occupied_heating_setpoint_id = Some temp_set
      \<longrightarrow> running_states (deliver (hass_climate_state_change cache SASWELL_ROOM_TEMP_ATTR value)) =
           [if value * 10 \<ge> temp_set + 2 then RunningState_Idle else RunningState_Heat_State_On])
   \<and> (cache system_mode_id = Some SystemMode_Heat \<and> cache local_temperature_id = Some temp_current
      \<longrightarrow> running_states (deliver (hass_climate_state_change cache SASWELL_TARGET_TEMP_ATTR value)) =
           [if temp_current \<ge> value * 10 + 2 then RunningState_Idle else RunningState_Heat_State_On])
   \<and> (cache system_mode_id \<noteq> Some SystemMode_Heat
      \<longrightarrow> running_states (deliver (hass_climate_state_change cache attrid value)) = [RunningState_Idle])
   \<and> (value \<noteq> 1 \<longrightarrow> running_states (on_off_event value) = [RunningState_Idle]
         \<and> (system_mode_id, SystemMode_Off) \<in> set (on_off_event value))"
proof (intro conjI impI)
  show "running_states (on_off_event value) = [RunningState_Idle]" if "value \<noteq> 1"
    using that by (simp add: on_off_event_def running_states_def zcl_defs)
  show "(system_mode_id, SystemMode_Off) \<in> set (on_off_event value)" if "value \<noteq> 1"
    using that by (simp add: on_off_event_def)
qed (auto simp: hass_climate_state_change_def running_states_state_change dp_defs)

theorem saswell_heat_comparator_witness:
  "running_states (deliver (hass_climate_state_change
      [system_mode_id \<mapsto> SystemMode_Heat, occupied_heating_setpoint_id \<mapsto> 2500]
      SASWELL_ROOM_TEMP_ATTR 248)) = [RunningState_Heat_State_On]
   \<and> running_states (deliver (hass_climate_state_change
      [system_mode_id \<mapsto> SystemMode_Heat, occupied_heating_setpoint_id \<mapsto> 2500]
      SASWELL_ROOM_TEMP_ATTR 252)) = [RunningState_Idle]
   \<and> running_states (deliver (hass_climate_state_change
      [system_mode_id \<mapsto> SystemMode_Heat, local_temperature_id \<mapsto> 248]
      SASWELL_TARGET_TEMP_ATTR 25)) = [RunningState_Heat_State_On]
   \<and> running_states (deliver (hass_climate_state_change
      [system_mode_id \<mapsto> SystemMode_Off, occupied_heating_setpoint_id \<mapsto> 2500]
      SASWELL_ROOM_TEMP_ATTR 248)) = [RunningState_Idle]
   \<and> running_states (on_off_event 0) = [RunningState_Idle]"
  using saswell_heat_comparator
    [of "[system_mode_id \<mapsto> SystemMode_Heat, occupied_heating_setpoint_id \<mapsto> 2500]" 2500 248 248
        SASWELL_ROOM_TEMP_ATTR]
    saswell_heat_comparator
    [of "[system_mode_id \<mapsto> SystemMode_Heat, occupied_heating_setpoint_id \<mapsto> 2500]" 2500 252 248
        SASWELL_ROOM_TEMP_ATTR]
    saswell_heat_comparator
    [of "[system_mode_id \<mapsto> SystemMode_Heat, local_temperature_id \<mapsto> 248]" 0 25 248
        SASWELL_TARGET_TEMP_ATTR]
    saswell_heat_comparator
    [of "[system_mode_id \<mapsto> SystemMode_Off, occupied_heating_setpoint_id \<mapsto> 2500]" 0 248 0
        SASWELL_ROOM_TEMP_ATTR]
    saswell_heat_comparator [of Map.empty 0 0 0 SASWELL_ROOM_TEMP_ATTR]
  by (simp add: zcl_defs)

text \<open>
  C1, counterexample. With the target at 250 the code gives Heating, not Idle, for a
  reading of 248, and Idle, not Heating, for a reading of 252: both where 250 is the
  target datapoint (cached as 2500) and where 250 is the cached setpoint and the
  temperatures 248 and 252 are the cached current values.
\<close>

theorem saswell_polarity_counterexample:
  "running_states (deliver (hass_climate_state_change
      [system_mode_id \<mapsto> SystemMode_Heat, occupied_heating_setpoint_id \<mapsto> 2500]
      SASWELL_ROOM_TEMP_ATTR 248)) \<noteq> [RunningState_Idle]
   \<and> running_states (deliver (hass_climate_state_change
      [system_mode_id \<mapsto> SystemMode_Heat, occupied_heating_setpoint_id \<mapsto> 2500]
      SASWELL_ROOM_TEMP_ATTR 252)) \<noteq> [RunningState_Heat_State_On]
   \<and> running_states (deliver (hass_climate_state_change
      [system_mode_id \<mapsto> SystemMode_Heat, local_temperature_id \<mapsto> 248]
      SASWELL_TARGET_TEMP_ATTR 25)) \<noteq> [RunningState_Idle]
   \<and> running_states (deliver (hass_climate_state_change
      [system_mode_id \<mapsto> SystemMode_Heat, local_temperature_id \<mapsto> 252]
      SASWELL_TARGET_TEMP_ATTR 25)) \<noteq> [RunningState_Heat_State_On]"
  by (simp add: hass_climate_state_change_def running_states_state_change zcl_defs dp_defs)

text \<open>
  C2 (as amended). \<^verbatim>\<open>SaswellThermostat.hass_climate_state_change\<close> emits state 0 (Idle)
  for every fresh temperature value while the cached system mode is not Heat, whatever
  the temperatures are. \<^verbatim>\<open>ZONNSMARTThermostat.state_temp_change\<close> does not read the
  system mode: its result is the same for every value of that cache entry. For a fresh
  current temperature it is Idle exactly when the scaled reading has reached the cached
  target, for a fresh target exactly when the cached current temperature has reached the
  scaled target, and Heating otherwise; any other attribute id publishes nothing.
\<close>

theorem off_mode_idle_saswell_not_zonnsmart:
  "(cache system_mode_id \<noteq> Some SystemMode_Heat
      \<longrightarrow> hass_climate_state_change cache attrid value = Inr [StateChange 0]
        \<and> running_states (deliver (hass_climate_state_change cache attrid value)) = [RunningState_Idle])
   \<and> state_temp_change (cache(system_mode_id := mode)) attrid value = state_temp_change cache attrid value
   \<and> (cache occupied_heating_setpoint_id = Some temp_set
      \<longrightarrow> state_temp_change cache ZONNSMART_TEMPERATURE_ATTR value =
           Inr [StateChange (if value * 10 \<ge> temp_set then 0 else 1)]
        \<and> running_states (deliver (state_temp_change cache ZONNSMART_TEMPERATURE_ATTR value)) =
           [if value * 10 \<ge> temp_set then RunningState_Idle else RunningState_Heat_State_On])
   \<and> (cache local_temperature_id = Some temp_current
      \<longrightarrow> state_temp_change cache ZONNSMART_TARGET_TEMP_ATTR value =
           Inr [StateChange (if temp_current \<ge> value * 10 then 0 else 1)]
        \<and> running_states (deliver (state_temp_change cache ZONNSMART_TARGET_TEMP_ATTR value)) =
           [if temp_current \<ge> value * 10 then RunningState_Idle else RunningState_Heat_State_On])
   \<and> (attrid \<noteq> ZONNSMART_TEMPERATURE_ATTR \<and> attrid \<noteq> ZONNSMART_TARGET_TEMP_ATTR
      \<longrightarrow> state_temp_change cache attrid value = Inr [])"
proof (intro conjI impI)
  show "state_temp_change (cache(system_mode_id := mode)) attrid value = state_temp_change cache attrid value"
    by (simp add: state_temp_change_def zcl_defs)
next
  assume "cache local_temperature_id = Some temp_current"
  then show "state_temp_change cache ZONNSMART_TARGET_TEMP_ATTR value =
      Inr [StateChange (if temp_current \<ge> value * 10 then 0 else 1)]"
    by (simp add: state_temp_change_def dp_defs)
  then show "running_states (deliver (state_temp_change cache ZONNSMART_TARGET_TEMP_ATTR value)) =
      [if temp_current \<ge> value * 10 then RunningState_Idle else RunningState_Heat_State_On]"
    by (simp add: running_states_state_change)
qed (simp_all add: hass_climate_state_change_def state_temp_change_def running_states_state_change)

theorem off_mode_idle_saswell_not_zonnsmart_witness:
  "hass_climate_state_change
      [system_mode_id \<mapsto> SystemMode_Off, occupied_heating_setpoint_id \<mapsto> 250]
      SASWELL_ROOM_TEMP_ATTR 20 = Inr [StateChange 0]
   \<and> state_temp_change
      [occupied_heating_setpoint_id \<mapsto> 250, system_mode_id \<mapsto> SystemMode_Off]
      ZONNSMART_TEMPERATURE_ATTR 20 = Inr [StateChange 1]
   \<and> state_temp_change [occupied_heating_setpoint_id \<mapsto> 250] ZONNSMART_TEMPERATURE_ATTR 25 =
      Inr [StateChange 0]
   \<and> state_temp_change [local_temperature_id \<mapsto> 200] ZONNSMART_TARGET_TEMP_ATTR 25 =
      Inr [StateChange 1]
   \<and> running_states (deliver
        (state_temp_change [local_temperature_id \<mapsto> 200] ZONNSMART_TARGET_TEMP_ATTR 25)) =
      [RunningState_Heat_State_On]
   \<and> state_temp_change [local_temperature_id \<mapsto> 200] ZONNSMART_TARGET_TEMP_ATTR 20 =
      Inr [StateChange 0]
   \<and> state_temp_change [local_temperature_id \<mapsto> 200] ZONNSMART_BATTERY_ATTR 20 = Inr []"
  using off_mode_idle_saswell_not_zonnsmart
    [of "[system_mode_id \<mapsto> SystemMode_Off, occupied_heating_setpoint_id \<mapsto> 250]"
        SASWELL_ROOM_TEMP_ATTR 20 "Some SystemMode_Off" 250 0]
    off_mode_idle_saswell_not_zonnsmart
    [of "[occupied_heating_setpoint_id \<mapsto> 250]" ZONNSMART_TEMPERATURE_ATTR 20
        "Some SystemMode_Off" 250 0]
    off_mode_idle_saswell_not_zonnsmart
    [of "[occupied_heating_setpoint_id \<mapsto> 250]" ZONNSMART_TEMPERATURE_ATTR 25 None 250 0]
    off_mode_idle_saswell_not_zonnsmart
    [of "[local_temperature_id \<mapsto> 200]" ZONNSMART_TARGET_TEMP_ATTR 25 None 0 200]
    off_mode_idle_saswell_not_zonnsmart
    [of "[local_temperature_id \<mapsto> 200]" ZONNSMART_TARGET_TEMP_ATTR 20 None 0 200]
    off_mode_idle_saswell_not_zonnsmart
    [of "[local_temperature_id \<mapsto> 200]" ZONNSMART_BATTERY_ATTR 20 None 0 200]
  by (simp add: running_states_state_change zcl_defs dp_defs)

text \<open>
  C2, counterexample. In system mode Off with the target at 250, a ZONNSMART room
  temperature report of 20 (scaled: 200) gives running state Heating, not Idle; so does,
  in system mode Off with the current temperature at 200, a target report of 25
  (scaled: 250).
\<close>

theorem zonnsmart_off_mode_counterexample:
  "running_states (deliver (state_temp_change
      [system_mode_id \<mapsto> SystemMode_Off, occupied_heating_setpoint_id \<mapsto> 250]
      ZONNSMART_TEMPERATURE_ATTR 20)) = [RunningState_Heat_State_On]
   \<and> running_states (deliver (state_temp_change
      [system_mode_id \<mapsto> SystemMode_Off, local_temperature_id \<mapsto> 200]
      ZONNSMART_TARGET_TEMP_ATTR 25)) = [RunningState_Heat_State_On]
   \<and> RunningState_Heat_State_On \<noteq> RunningState_Idle"
  by (simp add: state_temp_change_def running_states_state_change zcl_defs dp_defs)

text \<open>
  C3 (as amended). When the other temperature has never been observed, no calculator
  emits a Heating update. The Saswell calculator outside heat mode emits state 0 (Idle)
  without reading the missing value and without an error; in heat mode, and in the
  ZONNSMART calculator, the arrival of one temperature while the other is missing from
  the cache causes no derived-state update.
\<close>

theorem missing_value_no_heating_update:
  "(cache system_mode_id \<noteq> Some SystemMode_Heat
      \<longrightarrow> hass_climate_state_change cache attrid value = Inr [StateChange 0])
   \<and> (cache system_mode_id = Some SystemMode_Heat \<and> cache occupied_heating_setpoint_id = None
      \<longrightarrow> deliver (hass_climate_state_change cache SASWELL_ROOM_TEMP_ATTR value) = [])
   \<and> (cache system_mode_id = Some SystemMode_Heat \<and> cache local_temperature_id = None
      \<longrightarrow> deliver (hass_climate_state_change cache SASWELL_TARGET_TEMP_ATTR value) = [])
   \<and> (cache occupied_heating_setpoint_id = None
      \<longrightarrow> deliver (state_temp_change cache ZONNSMART_TEMPERATURE_ATTR value) = [])
   \<and> (cache local_temperature_id = None
      \<longrightarrow> deliver (state_temp_change cache ZONNSMART_TARGET_TEMP_ATTR value) = [])"
  by (simp add: hass_climate_state_change_def state_temp_change_def dp_defs)

theorem missing_value_no_heating_update_witness:
  "hass_climate_state_change Map.empty SASWELL_TARGET_TEMP_ATTR 21 = Inr [StateChange 0]
   \<and> deliver (hass_climate_state_change [system_mode_id \<mapsto> SystemMode_Heat]
        SASWELL_ROOM_TEMP_ATTR 21) = []
   \<and> deliver (hass_climate_state_change [system_mode_id \<mapsto> SystemMode_Heat]
        SASWELL_TARGET_TEMP_ATTR 21) = []
   \<and> deliver (state_temp_change Map.empty ZONNSMART_TEMPERATURE_ATTR 21) = []
   \<and> deliver (state_temp_change Map.empty ZONNSMART_TARGET_TEMP_ATTR 21) = []"
  using missing_value_no_heating_update [of Map.empty SASWELL_TARGET_TEMP_ATTR 21]
    missing_value_no_heating_update [of "[system_mode_id \<mapsto> SystemMode_Heat]" SASWELL_ROOM_TEMP_ATTR 21]
  by (simp add: zcl_defs)

text \<open>
  C3, counterexample. On an empty cache (nothing observed yet) a Saswell room
  temperature report makes the calculator emit an update, running state Idle; and the
  ZONNSMART calculator reaches the integer conversion of the missing target and raises
  \<^verbatim>\<open>TypeError\<close>.
\<close>

theorem missing_value_counterexample:
  "running_states (deliver (hass_climate_state_change Map.empty SASWELL_ROOM_TEMP_ATTR 20)) =
     [RunningState_Idle]
   \<and> state_temp_change Map.empty ZONNSMART_TEMPERATURE_ATTR 20 = Inl TypeError
   \<and> hass_climate_state_change [system_mode_id \<mapsto> SystemMode_Heat] SASWELL_ROOM_TEMP_ATTR 20 =
     Inl TypeError"
  by (simp add: hass_climate_state_change_def state_temp_change_def running_states_state_change
      zcl_defs)

section \<open>Reverse mapping: theorems\<close>

lemma upt18: "[0..<18] = [0,1,2,3,4,5,6,7,8,9,10,11,12,13,14,15,16,17::nat]"
  by (simp add: upt_rec)

lemma workday_ids:
  "list_all (\<lambda>j. MoesThermostat_attributes_by_name (fst (WORKDAY_SCHEDULE_ATTRS ! j)) =
      Some (schedule_attr_id 0x4100 j)) [0..<18]"
  by code_simp

lemma weekend_ids:
  "list_all (\<lambda>j. MoesThermostat_attributes_by_name (fst (WEEKEND_SCHEDULE_ATTRS ! j)) =
      Some (schedule_attr_id 0x4200 j)) [0..<18]"
  by code_simp

lemma workday_distinct: "distinct (map fst WORKDAY_SCHEDULE_ATTRS) \<and> length WORKDAY_SCHEDULE_ATTRS = 18"
  by code_simp

lemma weekend_distinct: "distinct (map fst WEEKEND_SCHEDULE_ATTRS) \<and> length WEEKEND_SCHEDULE_ATTRS = 18"
  by code_simp

lemma schedule_names_fall_through:
  "list_all (\<lambda>n. map_of MoesThermostat_DIRECT_MAPPING_ATTRS n = None
      \<and> n \<notin> {''programing_oper_mode'', ''occupancy''} \<and> n \<noteq> ''system_mode'')
     (map fst WORKDAY_SCHEDULE_ATTRS @ map fst WEEKEND_SCHEDULE_ATTRS)"
  by code_simp

lemma weekend_not_workday:
  "list_all (\<lambda>n. n \<notin> set (map fst WORKDAY_SCHEDULE_ATTRS)) (map fst WEEKEND_SCHEDULE_ATTRS)"
  by code_simp

lemma schedule_loop_map:
  "(\<And>e. e \<in> set es \<Longrightarrow> schedule_val cache a v e = Inr (f e))
     \<Longrightarrow> schedule_loop cache a v es data = Inr (data @ map f es)"
  by (induction es arbitrary: data) simp_all

lemma schedule_val_entry:
  assumes ids: "list_all (\<lambda>j. MoesThermostat_attributes_by_name (fst (tbl ! j)) =
      Some (schedule_attr_id base j)) [0..<18]"
    and dist: "distinct (map fst tbl) \<and> length tbl = 18"
    and i: "i < 18" and j: "j < 18"
  shows "schedule_val cache (fst (tbl ! i)) v (j, tbl ! j) = Inr (schedule_entry tbl base cache i v j)"
proof -
  have id: "MoesThermostat_attributes_by_name (fst (tbl ! j)) = Some (schedule_attr_id base j)"
    using ids j by (simp add: list_all_iff)
  have eq: "fst (tbl ! j) = fst (tbl ! i) \<longleftrightarrow> j = i"
    using dist i j nth_eq_iff_index_eq [of "map fst tbl" j i] by simp
  show ?thesis
    by (cases "tbl ! j") (use id eq in \<open>auto simp: schedule_val_def schedule_entry_def\<close>)
qed

lemma schedule_loop_table:
  assumes ids: "list_all (\<lambda>j. MoesThermostat_attributes_by_name (fst (tbl ! j)) =
      Some (schedule_attr_id base j)) [0..<18]"
    and dist: "distinct (map fst tbl) \<and> length tbl = 18"
    and i: "i < 18"
  shows "schedule_loop cache (fst (tbl ! i)) v (enumerate 0 tbl) [] =
     Inr (map (schedule_entry tbl base cache i v) [0..<18])"
proof -
  have "schedule_loop cache (fst (tbl ! i)) v (enumerate 0 tbl) [] =
      Inr ([] @ map (\<lambda>e. schedule_entry tbl base cache i v (fst e)) (enumerate 0 tbl))"
  proof (rule schedule_loop_map)
    fix e assume "e \<in> set (enumerate 0 tbl)"
    then obtain j where "j < 18" "e = (j, tbl ! j)"
      using dist by (auto simp: in_set_enumerate_eq)
    then show "schedule_val cache (fst (tbl ! i)) v e = Inr (schedule_entry tbl base cache i v (fst e))"
      using schedule_val_entry [OF ids dist i] by simp
  qed
  moreover have "map (\<lambda>e. schedule_entry tbl base cache i v (fst e)) (enumerate 0 tbl) =
      map (schedule_entry tbl base cache i v) [0..<18]"
  proof -
    have "map (\<lambda>e. schedule_entry tbl base cache i v (fst e)) (enumerate 0 tbl) =
        map (schedule_entry tbl base cache i v) (map fst (enumerate 0 tbl))"
      by (simp only: map_map comp_def)
    moreover have "length tbl = 18" using dist by simp
    ultimately show ?thesis by simp
  qed
  ultimately show ?thesis by simp
qed

lemma moes_schedule_workday:
  assumes "i < 18"
  shows "MoesThermostat_map_attribute cache (fst (WORKDAY_SCHEDULE_ATTRS ! i)) value =
     Inr (Some [(MOES_SCHEDULE_WORKDAY_ATTR,
       Data (map (\<lambda>j. PInt (schedule_entry WORKDAY_SCHEDULE_ATTRS 0x4100 cache i value j)) [0..<18]))])"
proof -
  let ?a = "fst (WORKDAY_SCHEDULE_ATTRS ! i)"
  have mem: "?a \<in> set (map fst WORKDAY_SCHEDULE_ATTRS)"
    using assms workday_distinct by simp
  then have ft: "map_of MoesThermostat_DIRECT_MAPPING_ATTRS ?a = None"
      "?a \<notin> {''programing_oper_mode'', ''occupancy''}" "?a \<noteq> ''system_mode''"
    using schedule_names_fall_through by (auto simp: list_all_iff)
  show ?thesis
    unfolding MoesThermostat_map_attribute_def
    using ft mem schedule_loop_table [OF workday_ids workday_distinct assms]
    by (simp add: comp_def)
qed

lemma moes_schedule_weekend:
  assumes "i < 18"
  shows "MoesThermostat_map_attribute cache (fst (WEEKEND_SCHEDULE_ATTRS ! i)) value =
     Inr (Some [(MOES_SCHEDULE_WEEKEND_ATTR,
       Data (map (\<lambda>j. PInt (schedule_entry WEEKEND_SCHEDULE_ATTRS 0x4200 cache i value j)) [0..<18]))])"
proof -
  let ?a = "fst (WEEKEND_SCHEDULE_ATTRS ! i)"
  have mem: "?a \<in> set (map fst WEEKEND_SCHEDULE_ATTRS)"
    using assms weekend_distinct by simp
  have "\<forall>n \<in> set (map fst WEEKEND_SCHEDULE_ATTRS). n \<notin> set (map fst WORKDAY_SCHEDULE_ATTRS)"
    using weekend_not_workday by (simp only: list_all_iff)
  with mem have nw: "?a \<notin> set (map fst WORKDAY_SCHEDULE_ATTRS)" by blast
  have "\<forall>n \<in> set (map fst WORKDAY_SCHEDULE_ATTRS @ map fst WEEKEND_SCHEDULE_ATTRS).
      map_of MoesThermostat_DIRECT_MAPPING_ATTRS n = None
      \<and> n \<notin> {''programing_oper_mode'', ''occupancy''} \<and> n \<noteq> ''system_mode''"
    using schedule_names_fall_through by (simp only: list_all_iff)
  moreover have "?a \<in> set (map fst WORKDAY_SCHEDULE_ATTRS @ map fst WEEKEND_SCHEDULE_ATTRS)"
    using mem by simp
  ultimately have ft: "map_of MoesThermostat_DIRECT_MAPPING_ATTRS ?a = None"
      "?a \<notin> {''programing_oper_mode'', ''occupancy''}" "?a \<noteq> ''system_mode''"
    by blast+
  show ?thesis
    unfolding MoesThermostat_map_attribute_def
    using ft nw mem schedule_loop_table [OF weekend_ids weekend_distinct assms]
    by (simp add: comp_def)
qed

text \<open>
  C4 (as amended). A write of one workday or weekend schedule field (field \<open>i\<close> of the
  table) makes \<^verbatim>\<open>MoesThermostat.map_attribute\<close> return exactly one datapoint, the
  schedule datapoint, with 18 fields: the written field carries the new value, every
  other field the cached value of its attribute or the default of the table when never
  observed, and every temperature field, written or not, carries its value divided by
  100 and rounded.
\<close>

theorem moes_schedule_write_payload:
  assumes "i < 18"
  shows "MoesThermostat_map_attribute cache (fst (WORKDAY_SCHEDULE_ATTRS ! i)) value =
       Inr (Some [(MOES_SCHEDULE_WORKDAY_ATTR,
         Data (map (\<lambda>j. PInt (schedule_entry WORKDAY_SCHEDULE_ATTRS 0x4100 cache i value j)) [0..<18]))])
     \<and> MoesThermostat_map_attribute cache (fst (WEEKEND_SCHEDULE_ATTRS ! i)) value =
       Inr (Some [(MOES_SCHEDULE_WEEKEND_ATTR,
         Data (map (\<lambda>j. PInt (schedule_entry WEEKEND_SCHEDULE_ATTRS 0x4200 cache i value j)) [0..<18]))])"
  using moes_schedule_workday [OF assms] moes_schedule_weekend [OF assms] by simp

theorem moes_schedule_write_payload_witness:
  "MoesThermostat_map_attribute [0x4162 \<mapsto> 1840, 0x4260 \<mapsto> 21] ''workday_schedule_1_hour'' 7 =
       Inr (Some [(MOES_SCHEDULE_WORKDAY_ATTR,
         Data (map PInt [18, 0, 22, 20, 30, 17, 15, 30, 12, 15, 30, 11, 15, 0, 8, 20, 0, 7]))])
   \<and> MoesThermostat_map_attribute [0x4162 \<mapsto> 1840, 0x4260 \<mapsto> 21] ''weekend_schedule_1_hour'' 7 =
       Inr (Some [(MOES_SCHEDULE_WEEKEND_ATTR,
         Data (map PInt [15, 0, 21, 20, 30, 17, 15, 30, 12, 15, 30, 11, 15, 0, 8, 20, 0, 7]))])"
  using moes_schedule_write_payload [of 17 "[0x4162 \<mapsto> 1840, 0x4260 \<mapsto> 21]" 7]
  by (simp add: WORKDAY_SCHEDULE_ATTRS_def WEEKEND_SCHEDULE_ATTRS_def upt18 schedule_entry_def
      schedule_attr_id_def cache_get_def py_round_div_def)

text \<open>
  C4, counterexample. With \<^verbatim>\<open>workday_schedule_6_temperature\<close> cached as 1840, a write of
  \<^verbatim>\<open>workday_schedule_1_hour\<close> sends 18 in the first field, not the cached 1840; on an
  empty cache it sends 15, not the default 1500.
\<close>

theorem moes_schedule_temperature_counterexample:
  "MoesThermostat_map_attribute [0x4162 \<mapsto> 1840] ''workday_schedule_1_hour'' 7 =
       Inr (Some [(MOES_SCHEDULE_WORKDAY_ATTR,
         Data (map PInt [18, 0, 22, 20, 30, 17, 15, 30, 12, 15, 30, 11, 15, 0, 8, 20, 0, 7]))])
   \<and> MoesThermostat_map_attribute Map.empty ''workday_schedule_1_hour'' 7 =
       Inr (Some [(MOES_SCHEDULE_WORKDAY_ATTR,
         Data (map PInt [15, 0, 22, 20, 30, 17, 15, 30, 12, 15, 30, 11, 15, 0, 8, 20, 0, 7]))])
   \<and> PInt 18 \<noteq> PInt 1840 \<and> PInt 15 \<noteq> PInt 1500"
  by code_simp

lemma moes_system_mode_lookups:
  "map_of MoesThermostat_DIRECT_MAPPING_ATTRS ''system_mode'' = None
   \<and> MoesThermostat_attributes_by_name ''operation_preset'' = Some 0x4002"
  by code_simp

text \<open>
  C9. For every written value \<open>v\<close>, \<^verbatim>\<open>MoesThermostat.map_attribute('system_mode', v)\<close>
  returns the one write of \<^verbatim>\<open>MOES_MODE_ATTR\<close> with the cached \<^verbatim>\<open>operation_preset\<close>
  (the entry \<^verbatim>\<open>0x4002\<close> of the attribute cache), or 2 (Manual) when it was never
  observed; the result does not depend on \<open>v\<close>.
\<close>

theorem moes_system_mode_write_ignores_value:
  "(cache 0x4002 = Some p
      \<longrightarrow> MoesThermostat_map_attribute cache ''system_mode'' v =
            Inr (Some [(MOES_MODE_ATTR, Scalar (PInt p))]))
   \<and> (cache 0x4002 = None
      \<longrightarrow> MoesThermostat_map_attribute cache ''system_mode'' v =
            Inr (Some [(MOES_MODE_ATTR, Scalar (PInt 2))]))
   \<and> MoesThermostat_map_attribute cache ''system_mode'' v =
       Inr (Some [(MOES_MODE_ATTR, Scalar (PInt (cache_get cache operation_preset_id 2)))])
   \<and> MoesThermostat_map_attribute cache ''system_mode'' v =
       MoesThermostat_map_attribute cache ''system_mode'' w"
  using moes_system_mode_lookups
  by (simp add: MoesThermostat_map_attribute_def operation_preset_id_def cache_get_def)

theorem moes_system_mode_write_ignores_value_witness:
  "MoesThermostat_map_attribute [0x4002 \<mapsto> 1] ''system_mode'' 4 =
     Inr (Some [(0x0404, Scalar (PInt 1))])
   \<and> MoesThermostat_map_attribute [0x4002 \<mapsto> 0, 0x001C \<mapsto> 4] ''system_mode'' 0 =
     Inr (Some [(0x0404, Scalar (PInt 0))])
   \<and> MoesThermostat_map_attribute [0x001C \<mapsto> 4] ''system_mode'' 4 =
     Inr (Some [(0x0404, Scalar (PInt 2))])"
  using moes_system_mode_write_ignores_value [of "[0x4002 \<mapsto> 1]" 1 4 0]
    moes_system_mode_write_ignores_value [of "[0x4002 \<mapsto> 0, 0x001C \<mapsto> 4]" 0 0 0]
    moes_system_mode_write_ignores_value [of "[0x001C \<mapsto> 4]" 0 4 0]
  by (simp add: dp_defs)

section \<open>Write paths: theorems\<close>

lemma saswell_collect_empty:
  "\<forall>r \<in> set records. \<exists>n. map_of attrs (fst r) = Some n
     \<Longrightarrow> saswell_collect SaswellCustomOnOff_map_attribute attrs records [] = Inr []"
proof (induction records)
  case Nil
  show ?case by simp
next
  case (Cons r rest)
  then obtain n where "map_of attrs (fst r) = Some n" by auto
  then show ?case
    using Cons by (simp add: saswell_record_def SaswellCustomOnOff_map_attribute_def dict_update_def)
qed

lemma window_records_unchanged:
  "\<forall>r \<in> set records. \<exists>n. map_of attrs (fst r) = Some n \<and> n \<noteq> ''on_off''
        \<and> n \<noteq> ''window_detection_temperature'' \<and> n \<noteq> ''window_detection_timeout_minutes''
     \<Longrightarrow> window_records attrs records st = Inr st"
proof (induction records)
  case Nil
  show ?case by simp
next
  case (Cons r rest)
  then obtain n where "map_of attrs (fst r) = Some n" "n \<noteq> ''on_off''"
      "n \<noteq> ''window_detection_temperature''" "n \<noteq> ''window_detection_timeout_minutes''"
    by auto
  then show ?case
    using Cons by (simp add: window_record_def)
qed

lemma unsupported_write_fails_cleanly:
  assumes "records \<noteq> []"
  shows "(\<forall>r \<in> set records. \<exists>n. map_of attrs (fst r) = Some n) \<longrightarrow>
       SaswellCustomOnOff_write_attributes SaswellCustomOnOff_map_attribute attrs ieee records cache w =
         (Inr (StatusRecords (map (\<lambda>r. (FAILURE, Some (fst r))) records)), cache, w)"
    and "(\<forall>r \<in> set records. \<exists>n. map_of (MoesWindowDetection_attributes attrs) (fst r) = Some n
          \<and> n \<noteq> ''on_off'' \<and> n \<noteq> ''window_detection_temperature''
          \<and> n \<noteq> ''window_detection_timeout_minutes'') \<longrightarrow>
       MoesWindowDetection_write_attributes attrs dev records cache w =
         (Inr (StatusRecords (map (\<lambda>r. (FAILURE, Some (fst r))) records)), cache, w)"
  using assms
  by (auto simp: SaswellCustomOnOff_write_attributes_def saswell_collect_empty
      MoesWindowDetection_write_attributes_def window_records_unchanged)

text \<open>
  C5, the failing input. \<^verbatim>\<open>SaswellChildLock\<close> (endpoint 2 of the Saswell devices)
  inherits \<^verbatim>\<open>SaswellCustomOnOff.write_attributes\<close>; its \<^verbatim>\<open>map_attribute\<close> has a rule
  for \<^verbatim>\<open>on_off\<close> only and returns \<^verbatim>\<open>None\<close> for the OnOff attribute \<^verbatim>\<open>on_time\<close>.
  A write of \<^verbatim>\<open>on_time\<close> then raises \<^verbatim>\<open>TypeError\<close> in
  \<^verbatim>\<open>manufacturer_attrs.update(None)\<close> instead of returning a FAILURE record; the cache
  and the outbound traffic stay as they were. (The lemma above is the behaviour that
  the claim describes: it holds where \<^verbatim>\<open>map_attribute\<close> returns the empty dictionary,
  as the base class does, and for \<^verbatim>\<open>MoesWindowDetection\<close>.)
\<close>

theorem saswell_switch_unsupported_write_raises:
  "SaswellCustomOnOff_write_attributes SaswellChildLock_map_attribute
      [(0x0000, ''on_off''), (0x4001, ''on_time'')] 1 [(0x4001, 5)] Map.empty
      \<lparr>ZonnsmartManuClusterSelf = None, SaswellManufClusterSelf = [1 \<mapsto> 1], sent = []\<rparr>
   = (Inl TypeError, Map.empty,
      \<lparr>ZonnsmartManuClusterSelf = None, SaswellManufClusterSelf = [1 \<mapsto> 1], sent = []\<rparr>)"
  by (simp add: SaswellCustomOnOff_write_attributes_def saswell_record_def
      SaswellChildLock_map_attribute_def saswell_switch_map_attribute_def)

text \<open>
  C6. A reverse mapping that needs a cached attribute that was never observed uses the
  default and the write goes out. \<^verbatim>\<open>SiterwellThermostat.map_attribute('system_mode',
  Heat)\<close> without a cached \<^verbatim>\<open>programing_oper_mode\<close> takes \<^verbatim>\<open>Simple\<close> and returns
  \<^verbatim>\<open>{SITERWELL_MODE_ATTR: 2}\<close>. \<^verbatim>\<open>MoesWindowDetection.write_attributes\<close> sends the
  three fields with 5 for a missing timeout, 50 divided by 100 and rounded (that is 0)
  for a missing temperature and \<^verbatim>\<open>False\<close> for a missing \<^verbatim>\<open>on_off\<close>, next to the
  written field.
\<close>

theorem missing_context_uses_defaults:
  "(cache programing_oper_mode_id = None \<longrightarrow>
      SiterwellThermostat_map_attribute cache ''system_mode'' SystemMode_Heat =
        Some [(SITERWELL_MODE_ATTR, Scalar (PInt 2))])
   \<and> (wcache window_detection_timeout_minutes_id = None \<and> wcache window_detection_temperature_id = None
        \<and> map_of attrs 0 = Some ''on_off'' \<longrightarrow>
      MoesWindowDetection_write_attributes attrs dev [(0, v)] wcache w =
        (Inr ManufacturerResult, wcache,
         w\<lparr>sent := sent w @ [(dev, [(MOES_WINDOW_DETECT_ATTR,
              Data [PInt 5, PInt (py_round_div 50 100), PInt v])])]\<rparr>))
   \<and> (wcache window_detection_temperature_id = None \<and> wcache on_off_id = None \<longrightarrow>
      MoesWindowDetection_write_attributes attrs dev [(0x6001, v)] wcache w =
        (Inr ManufacturerResult, wcache,
         w\<lparr>sent := sent w @ [(dev, [(MOES_WINDOW_DETECT_ATTR,
              Data [PInt v, PInt (py_round_div 50 100), PBool False])])]\<rparr>))
   \<and> (wcache window_detection_timeout_minutes_id = None \<and> wcache on_off_id = None \<longrightarrow>
      MoesWindowDetection_write_attributes attrs dev [(0x6000, v)] wcache w =
        (Inr ManufacturerResult, wcache,
         w\<lparr>sent := sent w @ [(dev, [(MOES_WINDOW_DETECT_ATTR,
              Data [PInt 5, PQuot v 100, PBool False])])]\<rparr>))
   \<and> py_round_div 50 100 = 0"
  by (simp add: SiterwellThermostat_map_attribute_def cache_get_def zcl_defs
      MoesWindowDetection_write_attributes_def window_record_def MoesWindowDetection_attributes_def
      py_round_div_def)

theorem missing_context_uses_defaults_witness:
  "SiterwellThermostat_map_attribute Map.empty ''system_mode'' SystemMode_Heat =
        Some [(SITERWELL_MODE_ATTR, Scalar (PInt 2))]
   \<and> MoesWindowDetection_write_attributes [(0, ''on_off'')] 1 [(0, 1)] Map.empty
        \<lparr>ZonnsmartManuClusterSelf = None, SaswellManufClusterSelf = Map.empty, sent = []\<rparr> =
      (Inr ManufacturerResult, Map.empty,
       \<lparr>ZonnsmartManuClusterSelf = None, SaswellManufClusterSelf = Map.empty,
        sent = [(1, [(MOES_WINDOW_DETECT_ATTR, Data [PInt 5, PInt 0, PInt 1])])]\<rparr>)
   \<and> MoesWindowDetection_write_attributes [(0, ''on_off'')] 1 [(0x6000, 2150)] Map.empty
        \<lparr>ZonnsmartManuClusterSelf = None, SaswellManufClusterSelf = Map.empty, sent = []\<rparr> =
      (Inr ManufacturerResult, Map.empty,
       \<lparr>ZonnsmartManuClusterSelf = None, SaswellManufClusterSelf = Map.empty,
        sent = [(1, [(MOES_WINDOW_DETECT_ATTR, Data [PInt 5, PQuot 2150 100, PBool False])])]\<rparr>)"
  using missing_context_uses_defaults [of Map.empty Map.empty "[(0, ''on_off'')]" 1 1
      "\<lparr>ZonnsmartManuClusterSelf = None, SaswellManufClusterSelf = Map.empty, sent = []\<rparr>"]
    missing_context_uses_defaults [of Map.empty Map.empty "[(0, ''on_off'')]" 1 2150
      "\<lparr>ZonnsmartManuClusterSelf = None, SaswellManufClusterSelf = Map.empty, sent = []\<rparr>"]
  by simp

text \<open>
  C10. \<^verbatim>\<open>ZONNSMARTManufCluster.__init__\<close> stores the instance in the global
  \<^verbatim>\<open>ZonnsmartManuClusterSelf\<close>; after the clusters of two devices \<open>da\<close> and then \<open>db\<close>
  have been constructed the global is that of \<open>db\<close>. A write of \<^verbatim>\<open>on_off\<close> on a helper
  on/off cluster (boost, child lock, online mode: any \<^verbatim>\<open>get_attr_val_to_write\<close> that
  returns a dictionary) and a write on the opened-window-temperature cluster are then
  sent to the manufacturer cluster of \<open>db\<close>, on whichever device \<open>dev\<close> the written
  cluster is, \<open>da\<close> included.
\<close>

theorem zonnsmart_writes_use_last_constructed:
  "ZonnsmartManuClusterSelf (ZONNSMARTManufCluster_init db (ZONNSMARTManufCluster_init da w)) = Some db
   \<and> (map_of attrs 0 = Some ''on_off'' \<and> g v = Some attr_val \<longrightarrow>
        ZONNSMARTHelperOnOff_write_attributes g attrs dev [(0, v)] cache
          (ZONNSMARTManufCluster_init db (ZONNSMARTManufCluster_init da w)) =
        (Inr ManufacturerResult, cache,
         (ZONNSMARTManufCluster_init db (ZONNSMARTManufCluster_init da w))
           \<lparr>sent := sent w @ [(db, attr_val)]\<rparr>))
   \<and> (map_of attrs i = Some n \<longrightarrow>
        ZONNSMARTWindowOpenedTemp_write_attributes attrs dev [(ById i, x)] pcache
          (ZONNSMARTManufCluster_init db (ZONNSMARTManufCluster_init da w)) =
        (Inr (StatusRecords [(SUCCESS, None)]), pcache(i \<mapsto> x),
         (ZONNSMARTManufCluster_init db (ZONNSMARTManufCluster_init da w))
           \<lparr>sent := sent w @ [(db, [(ZONNSMART_OPENED_WINDOW_TEMP, Scalar (times10 x))])]\<rparr>))"
  by (simp add: ZONNSMARTManufCluster_init_def ZONNSMARTHelperOnOff_write_attributes_def
      helper_record_def attr_key_id_def)

theorem zonnsmart_writes_use_last_constructed_witness:
  "sent (snd (snd (ZONNSMARTHelperOnOff_write_attributes ZONNSMARTChildLock_get_attr_val_to_write
          [(0, ''on_off''), (0x55, ''present_value'')] 1 [(0, 1)] Map.empty
          (ZONNSMARTManufCluster_init 2 (ZONNSMARTManufCluster_init 1
            \<lparr>ZonnsmartManuClusterSelf = None, SaswellManufClusterSelf = Map.empty, sent = []\<rparr>))))) =
      [(2, [(ZONNSMART_CHILD_LOCK_ATTR, Scalar (PInt 1))])]
   \<and> sent (snd (snd (ZONNSMARTWindowOpenedTemp_write_attributes
          [(0, ''on_off''), (0x55, ''present_value'')] 1 [(ById 0x55, PQuot 43 2)] Map.empty
          (ZONNSMARTManufCluster_init 2 (ZONNSMARTManufCluster_init 1
            \<lparr>ZonnsmartManuClusterSelf = None, SaswellManufClusterSelf = Map.empty, sent = []\<rparr>))))) =
      [(2, [(ZONNSMART_OPENED_WINDOW_TEMP, Scalar (PQuotTimes 43 2 10))])]"
  using zonnsmart_writes_use_last_constructed
    [where db = 2 and da = 1
       and w = "\<lparr>ZonnsmartManuClusterSelf = None, SaswellManufClusterSelf = Map.empty, sent = []\<rparr>"
       and attrs = "[(0, ''on_off''), (0x55, ''present_value'')]"
       and g = ZONNSMARTChildLock_get_attr_val_to_write and v = 1
       and attr_val = "[(ZONNSMART_CHILD_LOCK_ATTR, Scalar (PInt 1))]"
       and dev = 1 and cache = Map.empty and i = "0x55" and n = "''present_value''"
       and x = "PQuot 43 2" and pcache = Map.empty]
  by (simp add: ZONNSMARTChildLock_get_attr_val_to_write_def times10_def)

section \<open>Update dispatcher: theorems\<close>

lemma apply_updates_append:
  "apply_updates (us @ vs) d = apply_updates vs (apply_updates us d)"
  by (simp add: apply_updates_def)

lemma dispatch_foldl_apply:
  "fst (foldl dispatch_step s hs) =
     apply_updates (drop (length (snd s)) (snd (foldl dispatch_step s hs))) (fst s)
   \<and> take (length (snd s)) (snd (foldl dispatch_step s hs)) = snd s"
proof (induction hs arbitrary: s)
  case Nil
  show ?case by (simp add: apply_updates_def)
next
  case (Cons h hs)
  let ?s' = "dispatch_step s h"
  have s': "fst ?s' = apply_updates (h (fst s)) (fst s)" "snd ?s' = snd s @ h (fst s)"
    by (simp_all add: dispatch_step_def)
  from Cons [of ?s'] have ih:
    "fst (foldl dispatch_step ?s' hs) =
       apply_updates (drop (length (snd ?s')) (snd (foldl dispatch_step ?s' hs))) (fst ?s')"
    "take (length (snd ?s')) (snd (foldl dispatch_step ?s' hs)) = snd ?s'"
    by simp_all
  obtain rest where rest: "snd (foldl dispatch_step ?s' hs) = snd ?s' @ rest"
    using ih(2) by (metis append_take_drop_id)
  show ?case
    using ih(1) rest s' by (simp add: apply_updates_append)
qed

lemma dispatch_apply: "fst (dispatch hs d) = apply_updates (snd (dispatch hs d)) d"
  using dispatch_foldl_apply [of "(d, [])" hs] by (simp add: dispatch_def)

lemma same_key_refl: "same_key u u"
  by (cases u) simp_all

lemma apply_update_twice:
  "apply_update (apply_update e x) u =
     (if same_key x u then apply_update e u else apply_update (apply_update e u) x)"
proof (cases x)
  case (ManufacturerUpdate a v)
  then show ?thesis by (cases u) (auto simp: fun_upd_twist)
next
  case (ThermostatUpdate a v)
  then show ?thesis by (cases u) (auto simp: fun_upd_twist)
next
  case (LocalUpdate c a v)
  then show ?thesis by (cases u) (auto simp: fun_upd_twist)
qed

lemma apply_update_same: "apply_update (apply_update e u) u = apply_update e u"
  using apply_update_twice [of e u u] by (simp only: same_key_refl if_True)

lemma apply_updates_absorb:
  "apply_update (apply_updates us (apply_update e u)) u = apply_update (apply_updates us e) u"
proof (induction us rule: rev_induct)
  case Nil
  show ?case by (simp add: apply_updates_def apply_update_same)
next
  case (snoc x us)
  let ?X = "apply_updates us (apply_update e u)" and ?Y = "apply_updates us e"
  have "apply_update (apply_update ?X x) u = apply_update (apply_update ?Y x) u"
    by (simp only: apply_update_twice [of _ x u] snoc)
  then show ?case by (simp add: apply_updates_def)
qed

lemma apply_updates_idem: "apply_updates us (apply_updates us d) = apply_updates us d"
proof (induction us arbitrary: d rule: rev_induct)
  case Nil
  show ?case by (simp add: apply_updates_def)
next
  case (snoc u us)
  have "apply_updates (us @ [u]) (apply_updates (us @ [u]) d) =
      apply_update (apply_updates us (apply_update (apply_updates us d) u)) u"
    by (simp add: apply_updates_def)
  also have "\<dots> = apply_update (apply_updates us (apply_updates us d)) u"
    by (rule apply_updates_absorb)
  also have "\<dots> = apply_update (apply_updates us d) u"
    by (simp add: snoc)
  finally show ?case by (simp add: apply_updates_def)
qed

lemma dispatch_idem:
  assumes "snd (dispatch hs (fst (dispatch hs d))) = snd (dispatch hs d)"
  shows "fst (dispatch hs (fst (dispatch hs d))) = fst (dispatch hs d)"
  using assms dispatch_apply [of hs d] dispatch_apply [of hs "fst (dispatch hs d)"]
  by (simp add: apply_updates_idem)

lemma apply_update_agree:
  "agree_on K d1 d2 \<Longrightarrow> agree_on K (apply_update d1 u) (apply_update d2 u)"
  by (cases u) (simp_all add: agree_on_def)

lemma apply_updates_agree:
  "agree_on K d1 d2 \<Longrightarrow> agree_on K (apply_updates us d1) (apply_updates us d2)"
  unfolding apply_updates_def
  by (induction us arbitrary: d1 d2) (simp_all add: apply_update_agree)

lemma dispatch_foldl_agree:
  assumes reads: "\<forall>h \<in> set hs. \<forall>d1 d2. agree_on K d1 d2 \<longrightarrow> h d1 = h d2"
    and "agree_on K (fst s1) (fst s2)" and "snd s1 = snd s2"
  shows "snd (foldl dispatch_step s1 hs) = snd (foldl dispatch_step s2 hs)
     \<and> agree_on K (fst (foldl dispatch_step s1 hs)) (fst (foldl dispatch_step s2 hs))"
  using assms
proof (induction hs arbitrary: s1 s2)
  case Nil
  then show ?case by simp
next
  case (Cons h hs)
  have eq: "h (fst s1) = h (fst s2)"
    using Cons.prems by simp
  have "agree_on K (fst (dispatch_step s1 h)) (fst (dispatch_step s2 h))"
    using Cons.prems(2) eq by (simp add: dispatch_step_def apply_updates_agree)
  moreover have "snd (dispatch_step s1 h) = snd (dispatch_step s2 h)"
    using Cons.prems(3) eq by (simp add: dispatch_step_def)
  moreover have "\<forall>h \<in> set hs. \<forall>d1 d2. agree_on K d1 d2 \<longrightarrow> h d1 = h d2"
    using Cons.prems(1) by simp
  ultimately show ?case
    using Cons.IH [of "dispatch_step s1 h" "dispatch_step s2 h"] by simp
qed

lemma dispatch_agree:
  assumes "\<forall>h \<in> set hs. \<forall>d1 d2. agree_on K d1 d2 \<longrightarrow> h d1 = h d2"
    and "agree_on K d1 d2"
  shows "snd (dispatch hs d1) = snd (dispatch hs d2)
     \<and> agree_on K (fst (dispatch hs d1)) (fst (dispatch hs d2))"
  using dispatch_foldl_agree [OF assms(1), of "(d1, [])" "(d2, [])"] assms(2)
  by (simp add: dispatch_def)

lemma apply_updates_untouched:
  "\<forall>a v. ThermostatUpdate a v \<in> set us \<longrightarrow> a \<noteq> k
     \<Longrightarrow> thermostat (apply_updates us d) k = thermostat d k"
proof (induction us arbitrary: d)
  case Nil
  show ?case by (simp add: apply_updates_def)
next
  case (Cons u us)
  have "\<forall>a v. ThermostatUpdate a v \<in> set us \<longrightarrow> a \<noteq> k"
    using Cons.prems by simp
  then have "thermostat (apply_updates us (apply_update d u)) k = thermostat (apply_update d u) k"
    by (rule Cons.IH)
  moreover have "thermostat (apply_update d u) k = thermostat d k"
    using Cons.prems by (cases u) auto
  ultimately show ?case by (simp add: apply_updates_def)
qed

lemma dispatch_foldl_emits:
  "u \<in> set (snd (foldl dispatch_step s hs))
     \<Longrightarrow> u \<in> set (snd s) \<or> (\<exists>h \<in> set hs. \<exists>d. u \<in> set (h d))"
proof (induction hs arbitrary: s)
  case Nil
  then show ?case by simp
next
  case (Cons h hs)
  from Cons.IH [of "dispatch_step s h"] Cons.prems
  have "u \<in> set (snd (dispatch_step s h)) \<or> (\<exists>h \<in> set hs. \<exists>d. u \<in> set (h d))"
    by simp
  then show ?case by (auto simp: dispatch_step_def)
qed

lemma dispatch_stable:
  assumes reads: "\<forall>h \<in> set hs. \<forall>d1 d2. agree_on K d1 d2 \<longrightarrow> h d1 = h d2"
    and writes: "\<forall>h \<in> set hs. \<forall>d a v. ThermostatUpdate a v \<in> set (h d) \<longrightarrow> a \<notin> K"
  shows "snd (dispatch hs (fst (dispatch hs d))) = snd (dispatch hs d)"
proof -
  have "agree_on K (fst (dispatch hs d)) d"
    unfolding agree_on_def
  proof
    fix k assume k: "k \<in> K"
    have "\<forall>a v. ThermostatUpdate a v \<in> set (snd (dispatch hs d)) \<longrightarrow> a \<noteq> k"
    proof (intro allI impI)
      fix a v assume "ThermostatUpdate a v \<in> set (snd (dispatch hs d))"
      then have "\<exists>h \<in> set hs. \<exists>d'. ThermostatUpdate a v \<in> set (h d')"
        using dispatch_foldl_emits [of "ThermostatUpdate a v" "(d, [])" hs]
        by (simp add: dispatch_def)
      then show "a \<noteq> k" using writes k by blast
    qed
    then show "thermostat (fst (dispatch hs d)) k = thermostat d k"
      by (simp add: dispatch_apply apply_updates_untouched)
  qed
  then show ?thesis using dispatch_agree [OF reads] by blast
qed

lemma agree_on_UNIV: "agree_on UNIV d1 d2 \<longleftrightarrow> thermostat d1 = thermostat d2"
  by (auto simp: agree_on_def)

lemma thermostat_names:
  "attributes_by_name Thermostat_attributes ''local_temperature'' = Some 0x0000
   \<and> attributes_by_name Thermostat_attributes ''occupied_heating_setpoint'' = Some 0x0012
   \<and> attributes_by_name Thermostat_attributes ''local_temperature_calibration'' = Some 0x0010
   \<and> attributes_by_name ZONNSMARTThermostat_attributes ''local_temperature'' = Some 0x0000
   \<and> attributes_by_name ZONNSMARTThermostat_attributes ''occupied_heating_setpoint'' = Some 0x0012
   \<and> attributes_by_name ZONNSMARTThermostat_attributes ''local_temperature_calibration'' = Some 0x0010
   \<and> attributes_by_name ZONNSMARTThermostat_attributes ''unoccupied_heating_setpoint'' = Some 0x0014
   \<and> attributes_by_name ZONNSMARTThermostat_attributes ''alarm_mask'' = Some 0x001D"
  by code_simp

lemma saswell_direct_mapped:
  "direct_mapped SaswellManufCluster_DIRECT_MAPPED_ATTRS Thermostat_attributes attrid value =
     (if attrid = SASWELL_ROOM_TEMP_ATTR then [ThermostatUpdate local_temperature_id (value * 10)]
      else if attrid = SASWELL_TARGET_TEMP_ATTR
      then [ThermostatUpdate occupied_heating_setpoint_id (value * 10)]
      else if attrid = SASWELL_TEMP_CORRECTION_ATTR then [ThermostatUpdate 0x0010 (value * 10)]
      else [])"
  by (simp add: direct_mapped_def SaswellManufCluster_DIRECT_MAPPED_ATTRS_def
      temperature_change_def thermostat_names thermostat_updates_def zcl_defs)

lemma zonnsmart_direct_mapped:
  "direct_mapped ZONNSMARTManufCluster_DIRECT_MAPPED_ATTRS ZONNSMARTThermostat_attributes attrid value =
     (if attrid = ZONNSMART_TEMPERATURE_ATTR then [ThermostatUpdate local_temperature_id (value * 10)]
      else if attrid = ZONNSMART_TEMPERATURE_CALIBRATION_ATTR
      then [ThermostatUpdate 0x0010 (value * 10)]
      else if attrid = ZONNSMART_TARGET_TEMP_ATTR
      then [ThermostatUpdate occupied_heating_setpoint_id (value * 10)]
      else if attrid = ZONNSMART_HOLIDAY_TEMP_ATTR then [ThermostatUpdate 0x0014 (value * 10)]
      else if attrid = ZONNSMART_FAULT_DETECTION_ATTR
      then [ThermostatUpdate 0x001D (if value \<noteq> 0 then 2 else 0)]
      else [])"
  by (simp add: direct_mapped_def ZONNSMARTManufCluster_DIRECT_MAPPED_ATTRS_def
      temperature_change_def thermostat_names thermostat_updates_def zcl_defs)

lemma deliver_keys:
  "ThermostatUpdate a v \<in> set (thermostat_updates (deliver r))
     \<Longrightarrow> a = running_mode_id \<or> a = running_state_id"
proof (cases r)
  case (Inl e)
  assume "ThermostatUpdate a v \<in> set (thermostat_updates (deliver r))"
  then show ?thesis using Inl by (simp add: thermostat_updates_def)
next
  case (Inr evs)
  assume "ThermostatUpdate a v \<in> set (thermostat_updates (deliver r))"
  then obtain ev where "ev \<in> set evs" "(a, v) \<in> set (case ev of StateChange x \<Rightarrow> state_change x)"
    using Inr by (auto simp: thermostat_updates_def)
  then show ?thesis by (cases ev) (auto simp: state_change_def split: if_splits)
qed

lemma saswell_reads_ok:
  "agree_on (saswell_reads attrid) d1 d2
     \<Longrightarrow> saswell_events base attrid value d1 = saswell_events base attrid value d2"
  by (auto simp: saswell_events_def saswell_reads_def agree_on_def hass_climate_state_change_def)

lemma saswell_writes_ok:
  assumes "ThermostatUpdate a v \<in> set (saswell_events base attrid value d)
     \<or> ThermostatUpdate a v \<in> set (direct_mapped SaswellManufCluster_DIRECT_MAPPED_ATTRS
          Thermostat_attributes attrid value)"
  shows "a \<notin> saswell_reads attrid"
proof (cases "attrid \<in> {SASWELL_ROOM_TEMP_ATTR, SASWELL_TARGET_TEMP_ATTR}")
  case False
  then show ?thesis by (simp add: saswell_reads_def)
next
  case True
  then have "saswell_events base attrid value d =
      thermostat_updates (deliver (hass_climate_state_change (thermostat d) attrid value))"
    by (auto simp: saswell_events_def dp_defs)
  then have "a = running_mode_id \<or> a = running_state_id
      \<or> ThermostatUpdate a v \<in> set (direct_mapped SaswellManufCluster_DIRECT_MAPPED_ATTRS
          Thermostat_attributes attrid value)"
    using assms deliver_keys by auto
  then show ?thesis
    using True by (auto simp: saswell_direct_mapped saswell_reads_def zcl_defs dp_defs)
qed

lemma saswell_stable:
  "snd (SaswellManufCluster_update_attribute base r
          (fst (SaswellManufCluster_update_attribute base r d))) =
   snd (SaswellManufCluster_update_attribute base r d)"
proof (cases r)
  case (Pair attrid v)
  show ?thesis
    unfolding Pair SaswellManufCluster_update_attribute_def prod.case
  proof (rule dispatch_stable [where K = "saswell_reads attrid"])
    show "\<forall>h \<in> set [\<lambda>d. [ManufacturerUpdate attrid (Scalar (PInt v))],
            \<lambda>d. direct_mapped SaswellManufCluster_DIRECT_MAPPED_ATTRS Thermostat_attributes attrid v,
            saswell_events base attrid v].
          \<forall>d1 d2. agree_on (saswell_reads attrid) d1 d2 \<longrightarrow> h d1 = h d2"
      using saswell_reads_ok by simp
    show "\<forall>h \<in> set [\<lambda>d. [ManufacturerUpdate attrid (Scalar (PInt v))],
            \<lambda>d. direct_mapped SaswellManufCluster_DIRECT_MAPPED_ATTRS Thermostat_attributes attrid v,
            saswell_events base attrid v].
          \<forall>d a v. ThermostatUpdate a v \<in> set (h d) \<longrightarrow> a \<notin> saswell_reads attrid"
      using saswell_writes_ok [of _ _ base attrid v] by simp blast
  qed
qed

lemma zonnsmart_reads_ok:
  "agree_on (zonnsmart_reads attrid) d1 d2
     \<Longrightarrow> zonnsmart_state attrid v d1 = zonnsmart_state attrid v d2"
  by (auto simp: zonnsmart_state_def zonnsmart_reads_def agree_on_def state_temp_change_def)

lemma zonnsmart_events_const:
  "zonnsmart_events base attrid v d1 = zonnsmart_events base attrid v d2"
  by (simp add: zonnsmart_events_def)

lemma zonnsmart_events_temperature:
  assumes "attrid \<in> {ZONNSMART_TEMPERATURE_ATTR, ZONNSMART_TARGET_TEMP_ATTR}"
  shows "zonnsmart_events base attrid v d =
       [ThermostatUpdate (if attrid = ZONNSMART_TEMPERATURE_ATTR then local_temperature_id
          else occupied_heating_setpoint_id) (v * 10)]"
proof -
  have dom: "map_of ZONNSMARTManufCluster_DIRECT_MAPPED_ATTRS attrid \<noteq> None"
    using assms by (auto simp: ZONNSMARTManufCluster_DIRECT_MAPPED_ATTRS_def dp_defs)
  have "zonnsmart_events base attrid v d =
      direct_mapped ZONNSMARTManufCluster_DIRECT_MAPPED_ATTRS ZONNSMARTThermostat_attributes attrid v"
    unfolding zonnsmart_events_def by (rule if_P) (rule dom)
  then show ?thesis
    using assms by (auto simp: zonnsmart_direct_mapped dp_defs)
qed

lemma zonnsmart_writes_ok:
  assumes "ThermostatUpdate a x \<in> set (zonnsmart_events base attrid v d)
     \<or> ThermostatUpdate a x \<in> set (zonnsmart_state attrid v d)"
  shows "a \<notin> zonnsmart_reads attrid"
proof (cases "attrid \<in> {ZONNSMART_TEMPERATURE_ATTR, ZONNSMART_TARGET_TEMP_ATTR}")
  case False
  then show ?thesis by (simp add: zonnsmart_reads_def)
next
  case True
  then have "zonnsmart_state attrid v d =
      thermostat_updates (deliver (state_temp_change (thermostat d) attrid v))"
    by (auto simp: zonnsmart_state_def dp_defs)
  then have "a = running_mode_id \<or> a = running_state_id
      \<or> ThermostatUpdate a x \<in> set (zonnsmart_events base attrid v d)"
    using assms deliver_keys by auto
  then show ?thesis
    using True by (auto simp: zonnsmart_events_temperature zonnsmart_reads_def zcl_defs dp_defs)
qed

lemma zonnsmart_stable:
  "snd (ZONNSMARTManufCluster_update_attribute base r
          (fst (ZONNSMARTManufCluster_update_attribute base r d))) =
   snd (ZONNSMARTManufCluster_update_attribute base r d)"
proof (cases r)
  case (Pair attrid v)
  show ?thesis
    unfolding Pair ZONNSMARTManufCluster_update_attribute_def prod.case
  proof (rule dispatch_stable [where K = "zonnsmart_reads attrid"])
    show "\<forall>h \<in> set [\<lambda>d. [ManufacturerUpdate attrid (Scalar (PInt v))],
            zonnsmart_events base attrid v, zonnsmart_state attrid v].
          \<forall>d1 d2. agree_on (zonnsmart_reads attrid) d1 d2 \<longrightarrow> h d1 = h d2"
      using zonnsmart_reads_ok zonnsmart_events_const by simp
    show "\<forall>h \<in> set [\<lambda>d. [ManufacturerUpdate attrid (Scalar (PInt v))],
            zonnsmart_events base attrid v, zonnsmart_state attrid v].
          \<forall>d a x. ThermostatUpdate a x \<in> set (h d) \<longrightarrow> a \<notin> zonnsmart_reads attrid"
      using zonnsmart_writes_ok [of _ _ base attrid v] by simp blast
  qed
qed

lemma moes_stable:
  "snd (MoesManufCluster_update_attribute base r
          (fst (MoesManufCluster_update_attribute base r d))) =
   snd (MoesManufCluster_update_attribute base r d)"
proof (cases r)
  case (IntReport attrid v)
  show ?thesis
    unfolding IntReport MoesManufCluster_update_attribute.simps
    by (rule dispatch_stable [where K = "{}"]) (simp_all add: moes_events_def)
next
  case (RawReport raw xs)
  show ?thesis
    unfolding RawReport MoesManufCluster_update_attribute.simps
    by (rule dispatch_stable [where K = "{}"]) simp_all
qed

lemma saswell_idem:
  "fst (SaswellManufCluster_update_attribute base r
          (fst (SaswellManufCluster_update_attribute base r d))) =
   fst (SaswellManufCluster_update_attribute base r d)"
proof (cases r)
  case (Pair attrid v)
  show ?thesis
    using saswell_stable [of base r d]
    unfolding Pair SaswellManufCluster_update_attribute_def prod.case
    by (rule dispatch_idem)
qed

lemma moes_idem:
  "fst (MoesManufCluster_update_attribute base r
          (fst (MoesManufCluster_update_attribute base r d))) =
   fst (MoesManufCluster_update_attribute base r d)"
proof (cases r)
  case (IntReport attrid v)
  show ?thesis
    using moes_stable [of base r d]
    unfolding IntReport MoesManufCluster_update_attribute.simps
    by (rule dispatch_idem)
next
  case (RawReport raw xs)
  show ?thesis
    using moes_stable [of base r d]
    unfolding RawReport MoesManufCluster_update_attribute.simps
    by (rule dispatch_idem)
qed

lemma zonnsmart_idem:
  "fst (ZONNSMARTManufCluster_update_attribute base r
          (fst (ZONNSMARTManufCluster_update_attribute base r d))) =
   fst (ZONNSMARTManufCluster_update_attribute base r d)"
proof (cases r)
  case (Pair attrid v)
  show ?thesis
    using zonnsmart_stable [of base r d]
    unfolding Pair ZONNSMARTManufCluster_update_attribute_def prod.case
    by (rule dispatch_idem)
qed

lemma saswell_last_value_wins:
  "fst (SaswellManufCluster_update_attribute base r d) =
     apply_updates (snd (SaswellManufCluster_update_attribute base r d)) d"
  by (cases r) (simp add: SaswellManufCluster_update_attribute_def dispatch_apply)

lemma moes_last_value_wins:
  "fst (MoesManufCluster_update_attribute base r d) =
     apply_updates (snd (MoesManufCluster_update_attribute base r d)) d"
  by (cases r) (simp_all add: dispatch_apply)

lemma run_reports_agree:
  assumes step: "\<And>r d1 d2. thermostat d1 = thermostat d2 \<Longrightarrow>
      snd (handle r d1) = snd (handle r d2)
      \<and> thermostat (fst (handle r d1)) = thermostat (fst (handle r d2))"
  shows "thermostat d1 = thermostat d2 \<Longrightarrow>
      snd (run_reports handle rs d1) = snd (run_reports handle rs d2)
      \<and> thermostat (fst (run_reports handle rs d1)) = thermostat (fst (run_reports handle rs d2))"
proof (induction rs arbitrary: d1 d2)
  case Nil
  then show ?case by simp
next
  case (Cons r rs)
  from step [OF Cons.prems] have
    s: "snd (handle r d1) = snd (handle r d2)"
       "thermostat (fst (handle r d1)) = thermostat (fst (handle r d2))"
    by simp_all
  from Cons.IH [OF s(2)] s(1) show ?case
    by (simp add: case_prod_beta)
qed

lemma saswell_step_agree:
  assumes "thermostat d1 = thermostat d2"
  shows "snd (SaswellManufCluster_update_attribute base r d1) =
       snd (SaswellManufCluster_update_attribute base r d2)
     \<and> thermostat (fst (SaswellManufCluster_update_attribute base r d1)) =
       thermostat (fst (SaswellManufCluster_update_attribute base r d2))"
proof (cases r)
  case (Pair attrid v)
  have "\<forall>h \<in> set [\<lambda>d. [ManufacturerUpdate attrid (Scalar (PInt v))],
            \<lambda>d. direct_mapped SaswellManufCluster_DIRECT_MAPPED_ATTRS Thermostat_attributes attrid v,
            saswell_events base attrid v].
          \<forall>d1 d2. agree_on UNIV d1 d2 \<longrightarrow> h d1 = h d2"
    by (simp add: agree_on_UNIV saswell_events_def)
  from dispatch_agree [OF this, of d1 d2] assms show ?thesis
    by (simp add: Pair SaswellManufCluster_update_attribute_def agree_on_UNIV)
qed

lemma zonnsmart_step_agree:
  assumes "thermostat d1 = thermostat d2"
  shows "snd (ZONNSMARTManufCluster_update_attribute base r d1) =
       snd (ZONNSMARTManufCluster_update_attribute base r d2)
     \<and> thermostat (fst (ZONNSMARTManufCluster_update_attribute base r d1)) =
       thermostat (fst (ZONNSMARTManufCluster_update_attribute base r d2))"
proof (cases r)
  case (Pair attrid v)
  have "\<forall>h \<in> set [\<lambda>d. [ManufacturerUpdate attrid (Scalar (PInt v))],
            zonnsmart_events base attrid v, zonnsmart_state attrid v].
          \<forall>d1 d2. agree_on UNIV d1 d2 \<longrightarrow> h d1 = h d2"
    by (simp add: agree_on_UNIV zonnsmart_events_def zonnsmart_state_def)
  from dispatch_agree [OF this, of d1 d2] assms show ?thesis
    by (simp add: Pair ZONNSMARTManufCluster_update_attribute_def agree_on_UNIV)
qed

text \<open>
  The model on the reports of the repository's test
  \<^verbatim>\<open>test_saswell_trv_target_and_room_temperature\<close>: with the system mode Off a target
  of 15 and a room temperature of 20 give Off/Idle; after the device is switched on a
  target of 25 gives Heat/Heat_State_On and a room temperature of 30 gives Off/Idle.
\<close>

lemma saswell_dispatch_as_tested:
  "snd (run_reports (SaswellManufCluster_update_attribute
         \<lparr>child_lock_change = (\<lambda>v. [(1, PInt (if v = 0 then 0 else 1))]),
          battery_change = (\<lambda>v. [(0x21, PInt (v * 2))])\<rparr>)
       [(SASWELL_TARGET_TEMP_ATTR, 15), (SASWELL_ROOM_TEMP_ATTR, 20), (SASWELL_ONOFF_ATTR, 1),
        (SASWELL_TARGET_TEMP_ATTR, 25), (SASWELL_ROOM_TEMP_ATTR, 30)]
       \<lparr>manufacturer = Map.empty, thermostat = [system_mode_id \<mapsto> SystemMode_Off],
        local_caches = (\<lambda>c. Map.empty)\<rparr>) =
   [ManufacturerUpdate 0x0267 (Scalar (PInt 15)), ThermostatUpdate 0x0012 150,
    ThermostatUpdate 0x001E 0, ThermostatUpdate 0x0029 0,
    ManufacturerUpdate 0x0266 (Scalar (PInt 20)), ThermostatUpdate 0x0000 200,
    ThermostatUpdate 0x001E 0, ThermostatUpdate 0x0029 0,
    ManufacturerUpdate 0x0165 (Scalar (PInt 1)), ThermostatUpdate 0x001C 4,
    ThermostatUpdate 0x001E 4, ThermostatUpdate 0x0029 1,
    ManufacturerUpdate 0x0267 (Scalar (PInt 25)), ThermostatUpdate 0x0012 250,
    ThermostatUpdate 0x001E 4, ThermostatUpdate 0x0029 1,
    ManufacturerUpdate 0x0266 (Scalar (PInt 30)), ThermostatUpdate 0x0000 300,
    ThermostatUpdate 0x001E 0, ThermostatUpdate 0x0029 0]"
  by code_simp

text \<open>
  C7. Delivering the same report twice leaves every cache of the device as one
  delivery leaves it, for the Saswell, the Moes and the ZONNSMART dispatcher: the
  second delivery emits the updates of the first again, and the caches after a
  delivery are the caches before it overwritten by the updates emitted, the last
  update of an entry deciding its value.
\<close>

theorem duplicate_report_same_caches:
  "fst (SaswellManufCluster_update_attribute base r
          (fst (SaswellManufCluster_update_attribute base r d))) =
     fst (SaswellManufCluster_update_attribute base r d)
   \<and> fst (MoesManufCluster_update_attribute base m
          (fst (MoesManufCluster_update_attribute base m d))) =
     fst (MoesManufCluster_update_attribute base m d)
   \<and> fst (ZONNSMARTManufCluster_update_attribute base r
          (fst (ZONNSMARTManufCluster_update_attribute base r d))) =
     fst (ZONNSMARTManufCluster_update_attribute base r d)
   \<and> fst (SaswellManufCluster_update_attribute base r d) =
     apply_updates (snd (SaswellManufCluster_update_attribute base r d)) d
   \<and> fst (MoesManufCluster_update_attribute base m d) =
     apply_updates (snd (MoesManufCluster_update_attribute base m d)) d
   \<and> apply_updates us (apply_updates us d) = apply_updates us d"
  by (intro conjI saswell_idem moes_idem zonnsmart_idem saswell_last_value_wins
      moes_last_value_wins apply_updates_idem)

text \<open>
  C8. The sequence of updates that a run of the Saswell or of the ZONNSMART dispatcher
  emits for a sequence of reports is a function of the reports and of the thermostat
  cache at the start: two runs from devices with the same thermostat cache, and so two
  runs from the same cache state, emit the same updates of the same clusters and
  attributes with the same values in the same order.
\<close>

theorem same_caches_same_emissions:
  "thermostat d1 = thermostat d2 \<longrightarrow>
     snd (run_reports (SaswellManufCluster_update_attribute base) rs d1) =
       snd (run_reports (SaswellManufCluster_update_attribute base) rs d2)
     \<and> snd (run_reports (ZONNSMARTManufCluster_update_attribute base) rs d1) =
       snd (run_reports (ZONNSMARTManufCluster_update_attribute base) rs d2)"
  using run_reports_agree [of "SaswellManufCluster_update_attribute base" d1 d2 rs,
      OF saswell_step_agree]
    run_reports_agree [of "ZONNSMARTManufCluster_update_attribute base" d1 d2 rs,
      OF zonnsmart_step_agree]
  by simp

theorem same_caches_same_emissions_witness:
  "thermostat \<lparr>manufacturer = Map.empty, thermostat = [system_mode_id \<mapsto> SystemMode_Heat],
       local_caches = (\<lambda>c. Map.empty)\<rparr> =
   thermostat \<lparr>manufacturer = [0x0266 \<mapsto> Scalar (PInt 7)],
       thermostat = [system_mode_id \<mapsto> SystemMode_Heat],
       local_caches = (\<lambda>c. [0 \<mapsto> PInt 1])\<rparr>
   \<and> snd (run_reports (SaswellManufCluster_update_attribute
         \<lparr>child_lock_change = (\<lambda>v. [(1, PInt v)]), battery_change = (\<lambda>v. [(0x21, PInt v)])\<rparr>)
       [(SASWELL_ROOM_TEMP_ATTR, 20), (SASWELL_TARGET_TEMP_ATTR, 25), (SASWELL_CHILD_LOCK_ATTR, 1)]
       \<lparr>manufacturer = Map.empty, thermostat = [system_mode_id \<mapsto> SystemMode_Heat],
        local_caches = (\<lambda>c. Map.empty)\<rparr>) =
     snd (run_reports (SaswellManufCluster_update_attribute
         \<lparr>child_lock_change = (\<lambda>v. [(1, PInt v)]), battery_change = (\<lambda>v. [(0x21, PInt v)])\<rparr>)
       [(SASWELL_ROOM_TEMP_ATTR, 20), (SASWELL_TARGET_TEMP_ATTR, 25), (SASWELL_CHILD_LOCK_ATTR, 1)]
       \<lparr>manufacturer = [0x0266 \<mapsto> Scalar (PInt 7)],
        thermostat = [system_mode_id \<mapsto> SystemMode_Heat],
        local_caches = (\<lambda>c. [0 \<mapsto> PInt 1])\<rparr>)"
  using same_caches_same_emissions
    [of "\<lparr>manufacturer = Map.empty, thermostat = [system_mode_id \<mapsto> SystemMode_Heat],
          local_caches = (\<lambda>c. Map.empty)\<rparr>"
        "\<lparr>manufacturer = [0x0266 \<mapsto> Scalar (PInt 7)],
          thermostat = [system_mode_id \<mapsto> SystemMode_Heat],
          local_caches = (\<lambda>c. [0 \<mapsto> PInt 1])\<rparr>"
        "\<lparr>child_lock_change = (\<lambda>v. [(1, PInt v)]), battery_change = (\<lambda>v. [(0x21, PInt v)])\<rparr>"
        "[(SASWELL_ROOM_TEMP_ATTR, 20), (SASWELL_TARGET_TEMP_ATTR, 25), (SASWELL_CHILD_LOCK_ATTR, 1)]"]
  by simp

end
